theory Spec2Isabelle
  imports Complex_Main "HOL-Library.Monad_Syntax"
begin

section \<open>Element model (src/types/element.ts)\<close>

text \<open>
  JavaScript numbers are modelled as \<^typ>\<open>real\<close>: the editing arithmetic is read in exact
  arithmetic, without rounding and without NaN or infinities. Strings are \<^typ>\<open>string\<close>.
\<close>

datatype ElementType = TText | TShape | TCircle | TImage | TVideo | TAudio | TSubtitle

datatype AnimationType =
  AnimNone | FadeIn | FadeOut | SlideLeft | SlideRight | SlideUp
  | ScaleUp | ScaleDown | RotateIn | BounceIn | Typewriter | BlurIn | Glitch

datatype EasingType = Linear | EaseIn | EaseOut | EaseInOut | Bounce

datatype BlendMode = Normal | Multiply | Screen | Overlay | SoftLight

datatype TextAlign = AlignLeft | AlignCenter | AlignRight

datatype ObjectFit = Cover | Contain | Fill

datatype SubtitlePosition = PosTop | PosCenter | PosBottom

record SubtitleCue =
  cue_id :: string
  cue_startTime :: real
  cue_endTime :: real
  cue_text :: string

text \<open>
  The type-specific part of an element. The constructor is the discriminant \<open>type\<close> of the
  TypeScript union; \<open>ShapeElement\<close> serves both \<open>'shape'\<close> and \<open>'circle'\<close>.
\<close>

datatype specific =
  Text (content: string) (fontSize: real) (fontFamily: string) (fontWeight: string)
       (color: string) (textAlign: TextAlign)
  | Shape (fill: string) (stroke: string) (strokeWidth: real)
  | Circle (fill: string) (stroke: string) (strokeWidth: real)
  | Image (mediaAssetId: string) (src: string) (objectFit: ObjectFit)
  | Video (mediaAssetId: string) (src: string) (trimIn: real) (trimOut: real)
          (playbackRate: real) (volume: real) (muted: bool) (objectFit: ObjectFit)
  | Audio (mediaAssetId: string) (src: string) (trimIn: real) (trimOut: real)
          (volume: real) (fadeInDuration: real) (fadeOutDuration: real) (pan: real)
  | Subtitle (cues: "SubtitleCue list") (fontSize: real) (fontFamily: string)
             (color: string) (backgroundColor: string) (position: SubtitlePosition)

text \<open>
  \<open>BaseElement\<close>. The fields \<open>id\<close>, \<open>x\<close>, \<open>y\<close> and \<open>filter\<close> are renamed \<open>ident\<close>, \<open>pos_x\<close>,
  \<open>pos_y\<close> and \<open>filter_css\<close>.
\<close>

record element =
  ident :: string
  name :: string
  pos_x :: real
  pos_y :: real
  width :: real
  height :: real
  rotation :: real
  opacity :: real
  visible :: bool
  locked :: bool
  startTime :: real
  duration :: real
  animation :: AnimationType
  animationExit :: AnimationType
  animDuration :: real
  animExitDuration :: real
  easing :: EasingType
  filter_css :: string
  blendMode :: BlendMode
  shadow :: bool
  borderRadius :: real
  trackId :: string
  specific :: specific

fun etype :: "element \<Rightarrow> ElementType" where
  "etype e = (case specific e of
      Text _ _ _ _ _ _ \<Rightarrow> TText
    | Shape _ _ _ \<Rightarrow> TShape
    | Circle _ _ _ \<Rightarrow> TCircle
    | Image _ _ _ \<Rightarrow> TImage
    | Video _ _ _ _ _ _ _ _ \<Rightarrow> TVideo
    | Audio _ _ _ _ _ _ _ _ \<Rightarrow> TAudio
    | Subtitle _ _ _ _ _ _ \<Rightarrow> TSubtitle)"

text \<open>\<open>(el as any).trimIn || 0\<close>: the trim-in of a video or audio element, 0 where the
  element has no such field (and where it is 0).\<close>

fun trimInOr0 :: "element \<Rightarrow> real" where
  "trimInOr0 e = (case specific e of
      Video _ _ ti _ _ _ _ _ \<Rightarrow> ti
    | Audio _ _ ti _ _ _ _ _ \<Rightarrow> ti
    | _ \<Rightarrow> 0)"

text \<open>Writing \<open>trimIn\<close> and \<open>trimOut\<close> on an element; on an element of another type the
  assignment adds a property that no typed read of the program sees.\<close>

fun set_trimIn :: "real \<Rightarrow> specific \<Rightarrow> specific" where
  "set_trimIn v (Video m s ti to pr vo mu obf) = Video m s v to pr vo mu obf"
| "set_trimIn v (Audio m s ti to vo fi fo pa) = Audio m s v to vo fi fo pa"
| "set_trimIn v sp = sp"

fun set_trimOut :: "real \<Rightarrow> specific \<Rightarrow> specific" where
  "set_trimOut v (Video m s ti to pr vo mu obf) = Video m s ti v pr vo mu obf"
| "set_trimOut v (Audio m s ti to vo fi fo pa) = Audio m s ti v vo fi fo pa"
| "set_trimOut v sp = sp"

fun set_playbackRate :: "real \<Rightarrow> specific \<Rightarrow> specific" where
  "set_playbackRate v (Video m s ti to pr vo mu obf) = Video m s ti to v vo mu obf"
| "set_playbackRate v sp = sp"

fun set_volume :: "real \<Rightarrow> specific \<Rightarrow> specific" where
  "set_volume v (Video m s ti to pr vo mu obf) = Video m s ti to pr v mu obf"
| "set_volume v (Audio m s ti to vo fi fo pa) = Audio m s ti to v fi fo pa"
| "set_volume v sp = sp"

fun set_content :: "string \<Rightarrow> specific \<Rightarrow> specific" where
  "set_content v (Text c fs ff fw co ta) = Text v fs ff fw co ta"
| "set_content v sp = sp"

fun set_cues :: "SubtitleCue list \<Rightarrow> specific \<Rightarrow> specific" where
  "set_cues v (Subtitle cs fs ff co bg po) = Subtitle v fs ff co bg po"
| "set_cues v sp = sp"

section \<open>Element store (store/elementStore.ts, in src/types/element.ts from line 134)\<close>

text \<open>
  A patch is a \<open>Partial<Element>\<close>: an object literal giving some of the fields. It is
  modelled as the list of its field assignments; \<open>{ ...e, ...patch }\<close> applies them to \<open>e\<close>.
  The assignable fields are those of \<open>BaseElement\<close> and, of the type-specific ones,
  \<open>trimIn\<close>, \<open>trimOut\<close>, \<open>playbackRate\<close>, \<open>volume\<close>, \<open>content\<close> and \<open>cues\<close>; the other
  type-specific fields are assigned in the same way and touch no timing field.
\<close>

datatype patch_field =
  P_ident string | P_name string | P_x real | P_y real | P_width real | P_height real
  | P_rotation real | P_opacity real | P_visible bool | P_locked bool
  | P_startTime real | P_duration real
  | P_animation AnimationType | P_animationExit AnimationType
  | P_animDuration real | P_animExitDuration real | P_easing EasingType
  | P_filter string | P_blendMode BlendMode | P_shadow bool | P_borderRadius real
  | P_trackId string
  | P_trimIn real | P_trimOut real | P_playbackRate real | P_volume real
  | P_content string | P_cues "SubtitleCue list"

type_synonym patch = "patch_field list"

primrec assign :: "patch_field \<Rightarrow> element \<Rightarrow> element" where
  "assign (P_ident v) e = e\<lparr>ident := v\<rparr>"
| "assign (P_name v) e = e\<lparr>name := v\<rparr>"
| "assign (P_x v) e = e\<lparr>pos_x := v\<rparr>"
| "assign (P_y v) e = e\<lparr>pos_y := v\<rparr>"
| "assign (P_width v) e = e\<lparr>width := v\<rparr>"
| "assign (P_height v) e = e\<lparr>height := v\<rparr>"
| "assign (P_rotation v) e = e\<lparr>rotation := v\<rparr>"
| "assign (P_opacity v) e = e\<lparr>opacity := v\<rparr>"
| "assign (P_visible v) e = e\<lparr>visible := v\<rparr>"
| "assign (P_locked v) e = e\<lparr>locked := v\<rparr>"
| "assign (P_startTime v) e = e\<lparr>startTime := v\<rparr>"
| "assign (P_duration v) e = e\<lparr>duration := v\<rparr>"
| "assign (P_animation v) e = e\<lparr>animation := v\<rparr>"
| "assign (P_animationExit v) e = e\<lparr>animationExit := v\<rparr>"
| "assign (P_animDuration v) e = e\<lparr>animDuration := v\<rparr>"
| "assign (P_animExitDuration v) e = e\<lparr>animExitDuration := v\<rparr>"
| "assign (P_easing v) e = e\<lparr>easing := v\<rparr>"
| "assign (P_filter v) e = e\<lparr>filter_css := v\<rparr>"
| "assign (P_blendMode v) e = e\<lparr>blendMode := v\<rparr>"
| "assign (P_shadow v) e = e\<lparr>shadow := v\<rparr>"
| "assign (P_borderRadius v) e = e\<lparr>borderRadius := v\<rparr>"
| "assign (P_trackId v) e = e\<lparr>trackId := v\<rparr>"
| "assign (P_trimIn v) e = e\<lparr>specific := set_trimIn v (specific e)\<rparr>"
| "assign (P_trimOut v) e = e\<lparr>specific := set_trimOut v (specific e)\<rparr>"
| "assign (P_playbackRate v) e = e\<lparr>specific := set_playbackRate v (specific e)\<rparr>"
| "assign (P_volume v) e = e\<lparr>specific := set_volume v (specific e)\<rparr>"
| "assign (P_content v) e = e\<lparr>specific := set_content v (specific e)\<rparr>"
| "assign (P_cues v) e = e\<lparr>specific := set_cues v (specific e)\<rparr>"

definition merge :: "element \<Rightarrow> patch \<Rightarrow> element" where
  "merge e p = fold assign p e"

text \<open>The store state: the element list (array order is layer order) and the selection.\<close>

definition addElement :: "element \<Rightarrow> element list \<Rightarrow> element list" where
  "addElement el els = els @ [el]"

definition updateElement :: "string \<Rightarrow> patch \<Rightarrow> element list \<Rightarrow> element list" where
  "updateElement i p els = map (\<lambda>e. if ident e = i then merge e p else e) els"

definition deleteElements :: "string list \<Rightarrow> element list \<Rightarrow> element list" where
  "deleteElements ids els = filter (\<lambda>e. \<not> List.member ids (ident e)) els"

text \<open>A sequence of \<open>updateElement\<close> calls, in order.\<close>

definition updateElements :: "(string \<times> patch) list \<Rightarrow> element list \<Rightarrow> element list" where
  "updateElements calls els = fold (\<lambda>(i, p). updateElement i p) calls els"

text \<open>Invariant 1 of the data model: \<open>duration \<ge> 0.1\<close> and \<open>startTime \<ge> 0\<close>.\<close>

definition timing_ok :: "element \<Rightarrow> bool" where
  "timing_ok e \<longleftrightarrow> 1 / 10 \<le> duration e \<and> 0 \<le> startTime e"

text \<open>A field assignment that itself respects the timing floors.\<close>

fun field_timing_ok :: "patch_field \<Rightarrow> bool" where
  "field_timing_ok (P_startTime v) = (0 \<le> v)"
| "field_timing_ok (P_duration v) = (1 / 10 \<le> v)"
| "field_timing_ok _ = True"

text \<open>A text element as \<open>createTextElement\<close> fills it (\<open>baseDefaults\<close> of
  src/utils/elementFactory.ts), with a fixed identity and position.\<close>

definition sampleText :: element where
  "sampleText = \<lparr> ident = ''t1'', name = ''Text'', pos_x = 160, pos_y = 100,
     width = 200, height = 60, rotation = 0, opacity = 1, visible = True, locked = False,
     startTime = 0, duration = 10, animation = AnimNone, animationExit = AnimNone,
     animDuration = 6 / 10, animExitDuration = 6 / 10, easing = EaseOut,
     filter_css = ''none'', blendMode = Normal, shadow = False, borderRadius = 0,
     trackId = '''',
     specific = Text ''Your Text'' 32 ''Georgia'' ''bold'' ''#ffffff'' AlignCenter \<rparr>"

text \<open>A video element as \<open>createVideoElement\<close> fills it, with a fixed identity.\<close>

definition sampleVideo :: element where
  "sampleVideo = \<lparr> ident = ''v1'', name = ''Video'', pos_x = 0, pos_y = 0,
     width = 1920, height = 1080, rotation = 0, opacity = 1, visible = True, locked = False,
     startTime = 0, duration = 10, animation = AnimNone, animationExit = AnimNone,
     animDuration = 6 / 10, animExitDuration = 6 / 10, easing = EaseOut,
     filter_css = ''none'', blendMode = Normal, shadow = False, borderRadius = 0,
     trackId = '''',
     specific = Video '''' ''clip.mp4'' 0 10 1 1 False Contain \<rparr>"


section \<open>Timeline editing engine (src/components/timeline/TimelinePanel.tsx)\<close>

text \<open>Modelled from the spec: \<open>clamp\<close> of src/utils/math.ts, which is not among the
  sources; the time utilities are "pure numeric helpers: clamping", read as
  \<open>Math.max(min, Math.min(max, v))\<close>.\<close>

definition clamp :: "real \<Rightarrow> real \<Rightarrow> real \<Rightarrow> real" where
  "clamp v lo hi = max lo (min hi v)"

definition pxToTime :: "real \<Rightarrow> real \<Rightarrow> real" where
  "pxToTime timelineZoom px = px / timelineZoom"

text \<open>One test of \<open>snapTime\<close>: a candidate \<open>c\<close> replaces the current best when it is
  strictly closer to \<open>t\<close> than the best distance so far.\<close>

definition snapTry :: "real \<Rightarrow> real \<Rightarrow> real \<times> real \<Rightarrow> real \<times> real" where
  "snapTry t c bd = (if \<bar>t - c\<bar> < snd bd then (c, \<bar>t - c\<bar>) else bd)"

text \<open>The body of \<open>elements.forEach\<close> in \<open>snapTime\<close>.\<close>

definition snapClip :: "real \<Rightarrow> string option \<Rightarrow> element \<Rightarrow> real \<times> real \<Rightarrow> real \<times> real" where
  "snapClip t ignoreId el bd =
     (if Some (ident el) = ignoreId then bd
      else snapTry t (startTime el + duration el) (snapTry t (startTime el) bd))"

text \<open>The state the callback closes over: \<open>snapEnabled\<close>, \<open>timelineZoom\<close>, the playhead
  \<open>currentTime\<close> and the element list.\<close>

record snap_env =
  snapEnabled :: bool
  timelineZoom :: real
  currentTime :: real
  elements :: "element list"

definition snapTime :: "snap_env \<Rightarrow> real \<Rightarrow> string option \<Rightarrow> real" where
  "snapTime env t ignoreId =
     (if \<not> snapEnabled env then t
      else
        let SNAP_THRESHOLD = pxToTime (timelineZoom env) 8;
            bd0 = (t, SNAP_THRESHOLD);
            bd1 = snapTry t (currentTime env) bd0;
            bd2 = fold (snapClip t ignoreId) (elements env) bd1;
            nearestSecond = of_int (round t)
        in if \<bar>t - nearestSecond\<bar> < snd bd2 then nearestSecond else fst bd2)"

text \<open>The snap candidates in the order \<open>snapTime\<close> scans them: the playhead, then for
  every element other than the ignored one its start and its end edge (array order), then
  the nearest whole second.\<close>

definition clipEdges :: "string option \<Rightarrow> element list \<Rightarrow> real list" where
  "clipEdges ignoreId els =
     concat (map (\<lambda>el. [startTime el, startTime el + duration el])
       (filter (\<lambda>el. Some (ident el) \<noteq> ignoreId) els))"

definition snapCandidates :: "snap_env \<Rightarrow> real \<Rightarrow> string option \<Rightarrow> real list" where
  "snapCandidates env t ignoreId =
     currentTime env # clipEdges ignoreId (elements env) @ [of_int (round t)]"

text \<open>The reference values captured at gesture start (\<open>dragStartRef\<close>).\<close>

record dragStart =
  ds_mouseX :: real
  ds_startTime :: real
  ds_duration :: real
  ds_trimIn :: real

definition isMedia :: "element \<Rightarrow> bool" where
  "isMedia el \<longleftrightarrow> etype el = TVideo \<or> etype el = TAudio"

text \<open>The \<open>'trim-left'\<close> branch of \<open>onTimelineMouseMove\<close>, for the dragged element
  \<open>dragId\<close> and the pointer at \<open>clientX\<close>; the result is the store's element list. The
  list that \<open>snapTime\<close> closes over is the store's list.\<close>

definition trimLeftMove :: "snap_env \<Rightarrow> dragStart \<Rightarrow> string \<Rightarrow> real \<Rightarrow> element list" where
  "trimLeftMove env ds dragId clientX =
     (case find (\<lambda>e. ident e = dragId) (elements env) of
        None \<Rightarrow> elements env
      | Some el \<Rightarrow>
          let deltaX = clientX - ds_mouseX ds;
              deltaTime = pxToTime (timelineZoom env) deltaX;
              rawStart = ds_startTime ds + deltaTime;
              minStart = 0;
              maxStart = ds_startTime ds + ds_duration ds - 1 / 10;
              newStart0 = clamp rawStart minStart maxStart;
              newStart1 = snapTime env newStart0 (Some dragId);
              newStart = clamp newStart1 minStart maxStart;
              newDuration = ds_duration ds - (newStart - ds_startTime ds);
              els1 = updateElement dragId
                       [P_startTime newStart, P_duration (max (1 / 10) newDuration)]
                       (elements env)
          in if isMedia el
             then let trimDelta = newStart - ds_startTime ds
                  in updateElement dragId [P_trimIn (max 0 (ds_trimIn ds + trimDelta))] els1
             else els1)"

text \<open>The start time the trim-left gesture arrives at: clamp, snap, clamp again.\<close>

definition trimLeftStart :: "snap_env \<Rightarrow> dragStart \<Rightarrow> string \<Rightarrow> real \<Rightarrow> real" where
  "trimLeftStart env ds dragId deltaTime =
     clamp (snapTime env (clamp (ds_startTime ds + deltaTime) 0
                            (ds_startTime ds + ds_duration ds - 1 / 10)) (Some dragId))
       0 (ds_startTime ds + ds_duration ds - 1 / 10)"

text \<open>
  \<open>uid()\<close> of src/utils/uid.ts is not among the sources. The identities it hands out are
  taken as a parameter \<open>gen\<close>, the \<open>n\<close>-th call returning \<open>gen n\<close>; the store is paired with
  the number of identities drawn so far.
\<close>

type_synonym store = "element list \<times> nat"

text \<open>\<open>bladeClip\<close>: cut the clip \<open>el\<close> at \<open>mouseTime\<close>.\<close>

definition bladeClip :: "(nat \<Rightarrow> string) \<Rightarrow> element \<Rightarrow> real \<Rightarrow> store \<Rightarrow> store" where
  "bladeClip gen el mouseTime st =
     (if mouseTime \<le> startTime el \<or> mouseTime \<ge> startTime el + duration el then st
      else
        let splitPoint = mouseTime - startTime el;
            els1 = updateElement (ident el) [P_duration splitPoint] (fst st);
            secondHalf = el\<lparr> ident := gen (snd st), name := name el @ '' (2)'',
                             startTime := mouseTime, duration := duration el - splitPoint \<rparr>;
            secondHalf' =
              (if isMedia secondHalf
               then secondHalf\<lparr> specific :=
                      set_trimIn (trimInOr0 el + splitPoint) (specific secondHalf) \<rparr>
               else secondHalf)
        in (addElement secondHalf' els1, Suc (snd st)))"

text \<open>\<open>splitAtPlayhead\<close>: every selected id is looked up in the rendered list \<open>elements\<close>
  and cut at the playhead with the statements of \<open>bladeClip\<close>.\<close>

definition splitOne :: "(nat \<Rightarrow> string) \<Rightarrow> element list \<Rightarrow> real \<Rightarrow> string \<Rightarrow> store \<Rightarrow> store" where
  "splitOne gen els playhead i st =
     (case find (\<lambda>e. ident e = i) els of
        None \<Rightarrow> st
      | Some el \<Rightarrow>
          if playhead \<le> startTime el \<or> playhead \<ge> startTime el + duration el then st
          else
            let splitPoint = playhead - startTime el;
                els1 = updateElement (ident el) [P_duration splitPoint] (fst st);
                secondHalf = el\<lparr> ident := gen (snd st), name := name el @ '' (2)'',
                                 startTime := playhead, duration := duration el - splitPoint \<rparr>;
                secondHalf' =
                  (if isMedia secondHalf
                   then secondHalf\<lparr> specific :=
                          set_trimIn (trimInOr0 el + splitPoint) (specific secondHalf) \<rparr>
                   else secondHalf)
            in (addElement secondHalf' els1, Suc (snd st)))"

definition splitAtPlayhead ::
  "(nat \<Rightarrow> string) \<Rightarrow> element list \<Rightarrow> real \<Rightarrow> string list \<Rightarrow> store \<Rightarrow> store" where
  "splitAtPlayhead gen els playhead selectedIds st =
     fold (splitOne gen els playhead) selectedIds st"

text \<open>Sample inputs: identities \<open>n\<close>, \<open>nn\<close>, ...; the default zoom of 80 pixels per
  second with the playhead at 5 s; a video clip on 5 s .. 10 s and its drag reference.\<close>

definition sampleGen :: "nat \<Rightarrow> string" where
  "sampleGen n = replicate (Suc n) CHR ''n''"

definition sampleEnv :: snap_env where
  "sampleEnv = \<lparr> snapEnabled = True, timelineZoom = 80, currentTime = 5,
                 elements = [sampleText, sampleVideo] \<rparr>"

definition sampleClip :: element where
  "sampleClip = sampleVideo\<lparr> startTime := 5, duration := 5 \<rparr>"

definition sampleEnvNoSnap :: snap_env where
  "sampleEnvNoSnap = \<lparr> snapEnabled = False, timelineZoom = 80, currentTime = 0,
                       elements = [sampleClip] \<rparr>"

definition sampleDrag :: dragStart where
  "sampleDrag = \<lparr> ds_mouseX = 0, ds_startTime = 5, ds_duration = 5, ds_trimIn = 0 \<rparr>"

section \<open>Time formatting (utils/formatTime.ts, in src/utils/elementFactory.ts from line 161)\<close>

text \<open>\<open>Number.prototype.toString\<close> on an integral value (decimal digits, a minus sign
  for negatives; exponent notation of very large values is not modelled).\<close>

fun showNat :: "nat \<Rightarrow> string" where
  "showNat n = (if n < 10 then [''0123456789'' ! n]
                else showNat (n div 10) @ [''0123456789'' ! (n mod 10)])"

declare showNat.simps [simp del]

definition showInt :: "int \<Rightarrow> string" where
  "showInt i = (if i < 0 then CHR ''-'' # showNat (nat (- i)) else showNat (nat i))"

definition padStart :: "nat \<Rightarrow> char \<Rightarrow> string \<Rightarrow> string" where
  "padStart n c s = replicate (n - length s) c @ s"

text \<open>The remainder operator \<open>%\<close> of JavaScript on numbers: the quotient is truncated
  towards zero, so the result has the sign of the dividend.\<close>

definition jsTrunc :: "real \<Rightarrow> int" where
  "jsTrunc v = (if 0 \<le> v then \<lfloor>v\<rfloor> else \<lceil>v\<rceil>)"

definition jsRem :: "real \<Rightarrow> real \<Rightarrow> real" where
  "jsRem a b = a - b * of_int (jsTrunc (a / b))"

definition formatTime :: "real \<Rightarrow> string" where
  "formatTime seconds =
     (let m = \<lfloor>seconds / 60\<rfloor>;
          s = \<lfloor>jsRem seconds 60\<rfloor>;
          ms = \<lfloor>jsRem seconds 1 * 100\<rfloor>
      in padStart 2 CHR ''0'' (showInt m) @ '':'' @ padStart 2 CHR ''0'' (showInt s)
         @ ''.'' @ padStart 2 CHR ''0'' (showInt ms))"

section \<open>Region-to-clip materialization (src/components/autocut/AutoCutPanel.tsx)\<close>

datatype RegionType = Speech | Silence

text \<open>\<open>SpeechRegion\<close> of services/vadAnalyzer.ts (in src/services/aiEngine.ts from line 336).\<close>

record SpeechRegion =
  r_start :: real
  r_end :: real
  r_type :: RegionType
  r_rms :: real

text \<open>The selected video or audio element, \<open>selectedEl\<close>.\<close>

definition selectedMedia :: "element list \<Rightarrow> string list \<Rightarrow> element option" where
  "selectedMedia els selectedIds =
     find (\<lambda>e. List.member selectedIds (ident e) \<and> isMedia e) els"

text \<open>The loop of \<open>handleApply\<close> over the speech regions, with the running
  \<open>timeOffset\<close>.\<close>

fun applyRegions ::
  "(nat \<Rightarrow> string) \<Rightarrow> element \<Rightarrow> SpeechRegion list \<Rightarrow> real \<Rightarrow> store \<Rightarrow> store" where
  "applyRegions gen origEl [] timeOffset st = st"
| "applyRegions gen origEl (region # rest) timeOffset st =
     (let regionDuration = r_end region - r_start region;
          newEl = origEl\<lparr> ident := gen (snd st),
                          name := name origEl @ '' ['' @ formatTime (r_start region) @ '']'',
                          startTime := timeOffset,
                          duration := regionDuration,
                          specific := set_trimOut (trimInOr0 origEl + r_end region)
                                        (set_trimIn (trimInOr0 origEl + r_start region)
                                           (specific origEl)) \<rparr>
      in applyRegions gen origEl rest (timeOffset + regionDuration)
           (addElement newEl (fst st), Suc (snd st)))"

definition handleApply ::
  "(nat \<Rightarrow> string) \<Rightarrow> SpeechRegion list option \<Rightarrow> string list \<Rightarrow> store \<Rightarrow> store" where
  "handleApply gen regions selectedIds st =
     (case regions of
        None \<Rightarrow> st
      | Some rs \<Rightarrow>
          (case selectedMedia (fst st) selectedIds of
             None \<Rightarrow> st
           | Some origEl \<Rightarrow>
               let speechRegions = filter (\<lambda>r. r_type r = Speech) rs
               in if speechRegions = [] then st
                  else applyRegions gen origEl speechRegions (startTime origEl)
                         (deleteElements [ident origEl] (fst st), snd st)))"

text \<open>The length of a region and the total length of the first \<open>i\<close> regions.\<close>

definition regionLength :: "SpeechRegion \<Rightarrow> real" where
  "regionLength r = r_end r - r_start r"

definition lengthBefore :: "SpeechRegion list \<Rightarrow> nat \<Rightarrow> real" where
  "lengthBefore rs i = sum_list (map regionLength (take i rs))"

text \<open>Sample input: keep-regions (1, 3) and (6, 9) of the 10 s sample video, with a
  silence between them.\<close>

definition sampleRegions :: "SpeechRegion list" where
  "sampleRegions =
     [\<lparr> r_start = 1, r_end = 3, r_type = Speech, r_rms = 1 / 2 \<rparr>,
      \<lparr> r_start = 3, r_end = 6, r_type = Silence, r_rms = 0 \<rparr>,
      \<lparr> r_start = 6, r_end = 9, r_type = Speech, r_rms = 1 / 2 \<rparr>]"

section \<open>Animation (src/utils/animation.ts, with utils/easing.ts from its line 85)\<close>

definition applyEasing :: "real \<Rightarrow> EasingType \<Rightarrow> real" where
  "applyEasing t ease =
     (case ease of
        EaseIn \<Rightarrow> t * t
      | EaseOut \<Rightarrow> t * (2 - t)
      | EaseInOut \<Rightarrow> (if t < 1 / 2 then 2 * t * t else - 1 + (4 - 2 * t) * t)
      | Bounce \<Rightarrow>
          (let n = 121 / 16; d = 11 / 4
           in if t < 1 / d then n * t * t
              else if t < 2 / d then (let t2 = t - (3 / 2) / d in n * t2 * t2 + 3 / 4)
              else if t < (5 / 2) / d then (let t2 = t - (9 / 4) / d in n * t2 * t2 + 15 / 16)
              else (let t2 = t - (21 / 8) / d in n * t2 * t2 + 63 / 64))
      | Linear \<Rightarrow> t)"

text \<open>The CSS values the animation functions build as strings, kept structured.\<close>

datatype css_transform =
  CssRotate real | CssTranslateX real | CssTranslateY real | CssScale real
  | CssRotateScale real real | CssTranslate real real | CssNone

datatype css_filter = CssFilter string | CssBlur real

datatype css_clip = InsetRight real | InsetLeft real

text \<open>A \<open>React.CSSProperties\<close> object as the animation functions return it: each key is
  present or absent.\<close>

record anim_style =
  as_opacity :: "real option"
  as_transform :: "css_transform option"
  as_filter :: "css_filter option"
  as_clipPath :: "css_clip option"

definition noStyle :: anim_style where
  "noStyle = \<lparr> as_opacity = None, as_transform = None, as_filter = None, as_clipPath = None \<rparr>"

definition getAnimTransform :: "AnimationType \<Rightarrow> real \<Rightarrow> EasingType \<Rightarrow> anim_style" where
  "getAnimTransform anim progress ease =
     (let t = applyEasing (clamp progress 0 1) ease in
      case anim of
        FadeIn \<Rightarrow> noStyle\<lparr> as_opacity := Some t \<rparr>
      | FadeOut \<Rightarrow> noStyle\<lparr> as_opacity := Some (1 - t) \<rparr>
      | SlideLeft \<Rightarrow> noStyle\<lparr> as_opacity := Some t,
                               as_transform := Some (CssTranslateX ((1 - t) * 80)) \<rparr>
      | SlideRight \<Rightarrow> noStyle\<lparr> as_opacity := Some t,
                                as_transform := Some (CssTranslateX ((t - 1) * 80)) \<rparr>
      | SlideUp \<Rightarrow> noStyle\<lparr> as_opacity := Some t,
                             as_transform := Some (CssTranslateY ((1 - t) * 60)) \<rparr>
      | ScaleUp \<Rightarrow> noStyle\<lparr> as_opacity := Some t,
                             as_transform := Some (CssScale (3 / 10 + 7 / 10 * t)) \<rparr>
      | ScaleDown \<Rightarrow> noStyle\<lparr> as_opacity := Some t,
                               as_transform := Some (CssScale (3 / 2 - 1 / 2 * t)) \<rparr>
      | RotateIn \<Rightarrow> noStyle\<lparr> as_opacity := Some t,
                              as_transform :=
                                Some (CssRotateScale ((1 - t) * 180) (1 / 2 + 1 / 2 * t)) \<rparr>
      | BounceIn \<Rightarrow> noStyle\<lparr> as_opacity := Some t,
                              as_transform := Some (CssScale (3 / 10 + 7 / 10 * t)) \<rparr>
      | Typewriter \<Rightarrow> noStyle\<lparr> as_clipPath := Some (InsetRight ((1 - t) * 100)) \<rparr>
      | BlurIn \<Rightarrow> noStyle\<lparr> as_opacity := Some t, as_filter := Some (CssBlur ((1 - t) * 8)) \<rparr>
      | Glitch \<Rightarrow> noStyle\<lparr> as_opacity := Some (if t > 1 / 10 then 1 else 0),
                            as_transform :=
                              Some (if t < 8 / 10
                                    then CssTranslate (sin (t * 50) * 3) (cos (t * 40) * 2)
                                    else CssNone) \<rparr>
      | AnimNone \<Rightarrow> noStyle)"

definition getExitAnimTransform :: "AnimationType \<Rightarrow> real \<Rightarrow> EasingType \<Rightarrow> anim_style" where
  "getExitAnimTransform anim progress ease =
     (let t = applyEasing (clamp progress 0 1) ease in
      case anim of
        FadeIn \<Rightarrow> noStyle\<lparr> as_opacity := Some (1 - t) \<rparr>
      | FadeOut \<Rightarrow> noStyle\<lparr> as_opacity := Some (1 - t) \<rparr>
      | SlideLeft \<Rightarrow> noStyle\<lparr> as_opacity := Some (1 - t),
                               as_transform := Some (CssTranslateX (- t * 80)) \<rparr>
      | SlideRight \<Rightarrow> noStyle\<lparr> as_opacity := Some (1 - t),
                                as_transform := Some (CssTranslateX (t * 80)) \<rparr>
      | SlideUp \<Rightarrow> noStyle\<lparr> as_opacity := Some (1 - t),
                             as_transform := Some (CssTranslateY (- t * 60)) \<rparr>
      | ScaleUp \<Rightarrow> noStyle\<lparr> as_opacity := Some (1 - t),
                             as_transform := Some (CssScale (1 + t * (1 / 2))) \<rparr>
      | ScaleDown \<Rightarrow> noStyle\<lparr> as_opacity := Some (1 - t),
                               as_transform := Some (CssScale (1 - t * (7 / 10))) \<rparr>
      | RotateIn \<Rightarrow> noStyle\<lparr> as_opacity := Some (1 - t),
                              as_transform := Some (CssRotateScale (t * 180) (1 - 1 / 2 * t)) \<rparr>
      | BounceIn \<Rightarrow> noStyle\<lparr> as_opacity := Some (1 - t),
                              as_transform := Some (CssScale (1 - t * (7 / 10))) \<rparr>
      | Typewriter \<Rightarrow> noStyle\<lparr> as_clipPath := Some (InsetLeft (t * 100)) \<rparr>
      | BlurIn \<Rightarrow> noStyle\<lparr> as_opacity := Some (1 - t), as_filter := Some (CssBlur (t * 8)) \<rparr>
      | Glitch \<Rightarrow> noStyle\<lparr> as_opacity := Some (if t < 9 / 10 then 1 else 0),
                            as_transform :=
                              Some (if t > 2 / 10
                                    then CssTranslate (sin (t * 50) * 3) (cos (t * 40) * 2)
                                    else CssNone) \<rparr>
      | AnimNone \<Rightarrow> noStyle)"

text \<open>\<open>{ ...a, ...b }\<close> on style objects: a key present in \<open>b\<close> wins.\<close>

definition orElse :: "'a option \<Rightarrow> 'a option \<Rightarrow> 'a option" where
  "orElse b a = (case b of Some v \<Rightarrow> Some v | None \<Rightarrow> a)"

definition spreadStyle :: "anim_style \<Rightarrow> anim_style \<Rightarrow> anim_style" where
  "spreadStyle a b =
     \<lparr> as_opacity = orElse (as_opacity b) (as_opacity a),
       as_transform = orElse (as_transform b) (as_transform a),
       as_filter = orElse (as_filter b) (as_filter a),
       as_clipPath = orElse (as_clipPath b) (as_clipPath a) \<rparr>"

section \<open>Live preview (src/components/canvas/CanvasViewport.tsx)\<close>

text \<open>What \<open>renderElement\<close> reads besides the element: the playhead, the play state and
  the selection.\<close>

record preview_env =
  pv_currentTime :: real
  pv_isPlaying :: bool
  pv_selectedIds :: "string list"

text \<open>The type-specific part of the node \<open>renderElement\<close> returns.\<close>

datatype node_body =
  TextBody string real string string TextAlign string
  | BoxBody string "(real \<times> string) option"
  | ImageBody string
  | ImagePlaceholder
  | VideoBody string bool ObjectFit
  | VideoPlaceholder

text \<open>The node \<open>renderElement\<close> returns, with the visual properties of its style
  (\<open>baseStyle\<close> plus the type's own); the interaction-only properties \<open>cursor\<close>,
  \<open>transition\<close> and \<open>userSelect\<close> are left out.\<close>

record preview_node =
  n_elid :: string
  n_left :: real
  n_top :: real
  n_width :: real
  n_height :: real
  n_transform :: css_transform
  n_opacity :: real
  n_borderRadius :: real
  n_filter :: "css_filter option"
  n_mixBlendMode :: BlendMode
  n_boxShadow :: bool
  n_outline :: bool
  n_zIndex :: nat
  n_clipPath :: "css_clip option"
  n_body :: node_body

text \<open>The style \<open>animStyle\<close> that \<open>renderElement\<close> computes. Where \<open>animDuration\<close> is 0 the
  quotient is infinite or NaN in JavaScript and 0 here; nothing below evaluates it there.\<close>

definition animStyleOf :: "preview_env \<Rightarrow> element \<Rightarrow> bool \<Rightarrow> anim_style" where
  "animStyleOf pv el isInTime =
     (let animStyle0 =
            (if animation el \<noteq> AnimNone \<and> isInTime
             then let elapsed = pv_currentTime pv - startTime el;
                      progress = clamp (elapsed / animDuration el) 0 1
                  in getAnimTransform (animation el) progress (easing el)
             else noStyle)
      in if animationExit el \<noteq> AnimNone \<and> isInTime
         then let elEnd = startTime el + duration el;
                  timeToEnd = elEnd - pv_currentTime pv
              in if timeToEnd \<le> animExitDuration el
                 then let exitProgress = clamp (1 - timeToEnd / animExitDuration el) 0 1;
                          exitStyle = getExitAnimTransform (animationExit el) exitProgress
                                        (easing el)
                      in spreadStyle animStyle0 exitStyle
                 else animStyle0
         else animStyle0)"

definition nodeBody :: "element \<Rightarrow> node_body option" where
  "nodeBody el =
     (case specific el of
        Text c fs ff fw co ta \<Rightarrow> Some (TextBody co fs ff fw ta c)
      | Shape fi st sw \<Rightarrow> Some (BoxBody fi (if st \<noteq> ''none'' then Some (sw, st) else None))
      | Circle fi st sw \<Rightarrow> Some (BoxBody fi (if st \<noteq> ''none'' then Some (sw, st) else None))
      | Image m s obf \<Rightarrow> Some (if s \<noteq> [] then ImageBody s else ImagePlaceholder)
      | Video m s ti to pr vo mu obf \<Rightarrow>
          Some (if s \<noteq> [] then VideoBody s mu obf else VideoPlaceholder)
      | Audio _ _ _ _ _ _ _ _ \<Rightarrow> None
      | Subtitle _ _ _ _ _ _ \<Rightarrow> None)"

definition renderElement :: "preview_env \<Rightarrow> element \<Rightarrow> nat \<Rightarrow> preview_node option" where
  "renderElement pv el idx =
     (if \<not> visible el then None
      else
        let isInTime = pv_currentTime pv \<ge> startTime el
                       \<and> pv_currentTime pv < startTime el + duration el
        in if \<not> isInTime \<and> pv_isPlaying pv then None
           else
             let animStyle = animStyleOf pv el isInTime
             in map_option
                  (\<lambda>body.
                     \<lparr> n_elid = ident el,
                       n_left = pos_x el, n_top = pos_y el,
                       n_width = width el, n_height = height el,
                       n_transform = (case as_transform animStyle of
                                        Some tr \<Rightarrow> tr | None \<Rightarrow> CssRotate (rotation el)),
                       n_opacity = (case as_opacity animStyle of
                                      Some opa \<Rightarrow> opa | None \<Rightarrow> opacity el),
                       n_borderRadius = borderRadius el,
                       n_filter = orElse (as_filter animStyle)
                                    (if filter_css el \<noteq> ''none''
                                     then Some (CssFilter (filter_css el)) else None),
                       n_mixBlendMode = blendMode el,
                       n_boxShadow = shadow el,
                       n_outline = List.member (pv_selectedIds pv) (ident el),
                       n_zIndex = idx,
                       n_clipPath = as_clipPath animStyle,
                       n_body = body \<rparr>)
                  (nodeBody el))"







section \<open>Export renderer (src/services/exportPipeline.ts)\<close>

text \<open>A canvas font \<open>`${weight} ${size}px ${family}`\<close>, kept structured.\<close>

datatype font = Font string real string

text \<open>Assignments to properties of the 2D context.\<close>

datatype ctx_prop =
  FillStyle string
  | StrokeStyle string
  | LineWidth real
  | GlobalAlpha real
  | GlobalCompositeOperation BlendMode
  | CtxFont font
  | CtxTextAlign TextAlign
  | TextBaseline string
  | ShadowColor string
  | ShadowBlur real
  | ShadowOffsetY real

text \<open>Path construction calls.\<close>

datatype path_call =
  BeginPath
  | MoveTo real real
  | LineTo real real
  | QuadraticCurveTo real real real real
  | Ellipse real real real real real real real
  | ClosePath

text \<open>The operations on the 2D context, in order: the frame is what they draw.
  \<open>DrawVideo\<close> carries the current time of the video at the moment of the call, since
  \<open>drawImage(video, ...)\<close> draws the frame the video is at.\<close>

datatype cmd =
  Set ctx_prop
  | Path path_call
  | Save
  | Restore
  | Translate real real
  | Rotate real
  | ClearRect real real real real
  | FillRect real real real real
  | StrokeRect real real real real
  | FillText string real real
  | FillPath
  | StrokePath
  | DrawImage string real real real real
  | DrawVideo string real real real real real

definition roundRect :: "real \<Rightarrow> real \<Rightarrow> real \<Rightarrow> real \<Rightarrow> real \<Rightarrow> cmd list" where
  "roundRect x y w h r =
     map Path
       [BeginPath, MoveTo (x + r) y, LineTo (x + w - r) y,
        QuadraticCurveTo (x + w) y (x + w) (y + r),
        LineTo (x + w) (y + h - r),
        QuadraticCurveTo (x + w) (y + h) (x + w - r) (y + h),
        LineTo (x + r) (y + h),
        QuadraticCurveTo x (y + h) x (y + h - r),
        LineTo x (y + r),
        QuadraticCurveTo x y (x + r) y,
        ClosePath]"

text \<open>\<open>String.prototype.split\<close> with a one-character separator.\<close>

fun splitChar :: "char \<Rightarrow> string \<Rightarrow> string list" where
  "splitChar c [] = [[]]"
| "splitChar c (x # xs) =
     (if x = c then [] # splitChar c xs
      else (case splitChar c xs of
              [] \<Rightarrow> [[x]]
            | w # ws \<Rightarrow> (x # w) # ws))"

text \<open>What the export reads from its surroundings: the size of the output, the loaded
  images (by element id), the loaded videos with their current time (by element id), and
  \<open>ctx.measureText(text).width\<close> under a font.\<close>

record export_env =
  ex_width :: real
  ex_height :: real
  ex_images :: "string \<Rightarrow> bool"
  ex_videos :: "string \<Rightarrow> real option"
  ex_measure :: "font \<Rightarrow> string \<Rightarrow> real"

text \<open>The line-wrapping loop of the text branch: the state is \<open>(lines, currentLine)\<close>.\<close>

definition wrapStep ::
  "(string \<Rightarrow> real) \<Rightarrow> real \<Rightarrow> string \<Rightarrow> string list \<times> string \<Rightarrow> string list \<times> string" where
  "wrapStep meas maxw word st =
     (let currentLine = snd st;
          testLine = (if currentLine \<noteq> [] then currentLine @ '' '' @ word else word)
      in if meas testLine > maxw \<and> currentLine \<noteq> []
         then (fst st @ [currentLine], word)
         else (fst st, testLine))"

definition wrapLines :: "(string \<Rightarrow> real) \<Rightarrow> real \<Rightarrow> string \<Rightarrow> string list" where
  "wrapLines meas maxw txt =
     (let st = fold (wrapStep meas maxw) (splitChar CHR '' '' txt) ([], [])
      in if snd st \<noteq> [] then fst st @ [snd st] else fst st)"

text \<open>The element transform: translate to the centre of the box, rotate, set the alpha.\<close>

definition elementTransform :: "element \<Rightarrow> cmd list" where
  "elementTransform el =
     [Translate (pos_x el + width el / 2) (pos_y el + height el / 2),
      Rotate (rotation el * pi / 180),
      Set (GlobalAlpha (opacity el))]"

text \<open>The body of the loop over the cues of a subtitle element, for one cue.\<close>

definition drawCue ::
  "export_env \<Rightarrow> element \<Rightarrow> real \<Rightarrow> real \<Rightarrow> string \<Rightarrow> string \<Rightarrow> string
     \<Rightarrow> SubtitlePosition \<Rightarrow> SubtitleCue \<Rightarrow> cmd list" where
  "drawCue ex el now subFontSize fam col bg posn cue =
     (let cueActive = now \<ge> cue_startTime cue \<and> now \<le> cue_endTime cue
      in if \<not> cueActive then []
         else
           let textWidth = ex_measure ex (Font ''600'' subFontSize fam) (cue_text cue);
               padX = 20;
               padY = 10;
               textY = (case posn of
                          PosTop \<Rightarrow> ex_height ex * (8 / 100)
                        | PosCenter \<Rightarrow> ex_height ex / 2
                        | PosBottom \<Rightarrow> ex_height ex * (9 / 10))
           in [Restore, Save,
               Set (CtxFont (Font ''600'' subFontSize fam)),
               Set (CtxTextAlign AlignCenter),
               Set (TextBaseline ''middle''),
               Set (FillStyle bg),
               FillRect (ex_width ex / 2 - textWidth / 2 - padX)
                        (textY - subFontSize / 2 - padY)
                        (textWidth + padX * 2)
                        (subFontSize + padY * 2),
               Set (ShadowColor ''rgba(0,0,0,0.8)''),
               Set (ShadowBlur 4),
               Set (ShadowOffsetY 2),
               Set (FillStyle col),
               FillText (cue_text cue) (ex_width ex / 2) textY,
               Set (ShadowBlur 0),
               Set (ShadowOffsetY 0),
               Restore, Save]
              @ elementTransform el)"

text \<open>The type-specific drawing, in the coordinates of the element transform.\<close>

definition drawByType :: "export_env \<Rightarrow> element \<Rightarrow> real \<Rightarrow> cmd list" where
  "drawByType ex el now =
     (let x = - width el / 2; y = - height el / 2 in
      case specific el of
        Text c fs ff fw co ta \<Rightarrow>
          (let textX = (case ta of AlignCenter \<Rightarrow> 0
                                | AlignRight \<Rightarrow> width el / 2
                                | AlignLeft \<Rightarrow> - width el / 2);
               lines = wrapLines (ex_measure ex (Font fw fs ff)) (width el) c;
               lineHeight = fs * (12 / 10);
               startY = - (real (length lines) * lineHeight) / 2 + lineHeight / 2
           in [Set (FillStyle co), Set (CtxFont (Font fw fs ff)), Set (CtxTextAlign ta),
               Set (TextBaseline ''middle'')]
              @ map (\<lambda>i. FillText (lines ! i) textX (startY + real i * lineHeight))
                  [0 ..< length lines])
      | Shape fi st sw \<Rightarrow>
          [Set (FillStyle fi)]
          @ (if borderRadius el > 0
             then roundRect x y (width el) (height el) (borderRadius el) @ [FillPath]
             else [FillRect x y (width el) (height el)])
          @ (if st \<noteq> ''none''
             then [Set (StrokeStyle st), Set (LineWidth sw), StrokeRect x y (width el) (height el)]
             else [])
      | Circle fi st sw \<Rightarrow>
          [Set (FillStyle fi), Path BeginPath,
           Path (Ellipse 0 0 (width el / 2) (height el / 2) 0 0 (pi * 2)), FillPath]
          @ (if st \<noteq> ''none'' then [Set (StrokeStyle st), Set (LineWidth sw), StrokePath] else [])
      | Image m s obf \<Rightarrow>
          (if ex_images ex (ident el) then [DrawImage (ident el) x y (width el) (height el)]
           else [])
      | Video m s ti to pr vo mu obf \<Rightarrow>
          (case ex_videos ex (ident el) of
             Some vt \<Rightarrow> [DrawVideo (ident el) vt x y (width el) (height el)]
           | None \<Rightarrow> [])
      | Audio _ _ _ _ _ _ _ _ \<Rightarrow> []
      | Subtitle cs fs ff co bg po \<Rightarrow> concat (map (drawCue ex el now fs ff co bg po) cs))"

text \<open>One pass of the loop \<open>for (const el of elements)\<close> of \<open>renderFrameWithAssets\<close>.\<close>

definition drawElement :: "export_env \<Rightarrow> real \<Rightarrow> element \<Rightarrow> cmd list" where
  "drawElement ex now el =
     (if \<not> visible el then []
      else
        let isInTime = now \<ge> startTime el \<and> now < startTime el + duration el
        in if \<not> isInTime then []
           else [Save] @ elementTransform el
                @ (if blendMode el \<noteq> Normal then [Set (GlobalCompositeOperation (blendMode el))] else [])
                @ drawByType ex el now
                @ [Restore])"

definition renderFrameWithAssets :: "export_env \<Rightarrow> element list \<Rightarrow> real \<Rightarrow> cmd list" where
  "renderFrameWithAssets ex els now =
     [ClearRect 0 0 (ex_width ex) (ex_height ex),
      Set (FillStyle ''#111827''),
      FillRect 0 0 (ex_width ex) (ex_height ex)]
     @ concat (map (drawElement ex now) els)"

text \<open>Reading the placement off either output: the centre of the box, the rotation in
  degrees and the opacity.\<close>

record placement =
  centre_x :: real
  centre_y :: real
  angle_deg :: real
  alpha :: real

definition previewPlacement :: "preview_node \<Rightarrow> placement option" where
  "previewPlacement n =
     (case n_transform n of
        CssRotate d \<Rightarrow>
          Some \<lparr> centre_x = n_left n + n_width n / 2, centre_y = n_top n + n_height n / 2,
                 angle_deg = d, alpha = n_opacity n \<rparr>
      | _ \<Rightarrow> None)"

definition exportPlacement :: "cmd list \<Rightarrow> placement option" where
  "exportPlacement cs =
     (case cs of
        c0 # Translate cx cy # Rotate r # Set (GlobalAlpha a) # rest \<Rightarrow>
          if c0 = Save
          then Some \<lparr> centre_x = cx, centre_y = cy, angle_deg = r * 180 / pi, alpha = a \<rparr>
          else None
      | _ \<Rightarrow> None)"

definition drawsBoth :: "element \<Rightarrow> bool" where
  "drawsBoth el \<longleftrightarrow> etype el \<in> {TText, TShape, TCircle, TImage, TVideo}"

text \<open>The context operations that put pixels on the canvas.\<close>

definition paints :: "cmd \<Rightarrow> bool" where
  "paints c =
     (case c of
        FillRect _ _ _ _ \<Rightarrow> True
      | StrokeRect _ _ _ _ \<Rightarrow> True
      | FillText _ _ _ \<Rightarrow> True
      | FillPath \<Rightarrow> True
      | StrokePath \<Rightarrow> True
      | DrawImage _ _ _ _ _ \<Rightarrow> True
      | DrawVideo _ _ _ _ _ _ \<Rightarrow> True
      | _ \<Rightarrow> False)"

text \<open>The elements the export has something to draw for: a shape or circle, a text with
  a character other than a space, an image or a video whose asset is loaded.\<close>

definition exportHasContent :: "export_env \<Rightarrow> element \<Rightarrow> bool" where
  "exportHasContent ex el =
     (case specific el of
        Text c _ _ _ _ _ \<Rightarrow> list_ex (\<lambda>ch. ch \<noteq> CHR '' '') c
      | Shape _ _ _ \<Rightarrow> True
      | Circle _ _ _ \<Rightarrow> True
      | Image _ _ _ \<Rightarrow> ex_images ex (ident el)
      | Video _ _ _ _ _ _ _ _ \<Rightarrow> ex_videos ex (ident el) \<noteq> None
      | Audio _ _ _ _ _ _ _ _ \<Rightarrow> False
      | Subtitle _ _ _ _ _ _ \<Rightarrow> False)"

text \<open>Sample inputs: the preview paused or playing at 1.9 s, the export at 1080p with no
  media loaded and every text 100 units wide, a text on 2 s .. 6 s, and a text fading in
  over its first second.\<close>

definition samplePaused :: preview_env where
  "samplePaused = \<lparr> pv_currentTime = 19 / 10, pv_isPlaying = False, pv_selectedIds = [] \<rparr>"

definition samplePlaying :: preview_env where
  "samplePlaying = \<lparr> pv_currentTime = 1 / 2, pv_isPlaying = True, pv_selectedIds = [] \<rparr>"

definition sampleExport :: export_env where
  "sampleExport = \<lparr> ex_width = 1920, ex_height = 1080, ex_images = (\<lambda>i. False),
                    ex_videos = (\<lambda>i. None), ex_measure = (\<lambda>f s. 100) \<rparr>"

definition sampleLate :: element where
  "sampleLate = sampleText\<lparr> startTime := 2, duration := 4 \<rparr>"



definition sampleFade :: element where
  "sampleFade = sampleText\<lparr> animation := FadeIn, animDuration := 1, easing := Linear \<rparr>"

section \<open>Export orchestrator (src/services/exportPipeline.ts)\<close>

datatype ExportFormat = Mp4 | Webm

record ExportSettings =
  es_width :: real
  es_height :: real
  es_fps :: real
  es_videoBitrate :: string
  es_audioBitrate :: string
  es_format :: ExportFormat

text \<open>\<open>seekVideo\<close>, on the current time of the video: within 0.02 s of the target nothing is
  done; otherwise \<open>currentTime\<close> is set and the promise resolves on the \<open>seeked\<close> event, which
  the caller awaits. The model takes the seek to complete at exactly the requested time.\<close>

definition seekVideo :: "real \<Rightarrow> real \<Rightarrow> real" where
  "seekVideo videoCurrentTime time =
     (if \<bar>videoCurrentTime - time\<bar> < 2 / 100 then videoCurrentTime else time)"

definition isInTime :: "element \<Rightarrow> real \<Rightarrow> bool" where
  "isInTime el now \<longleftrightarrow> now \<ge> startTime el \<and> now < startTime el + duration el"

text \<open>\<open>el.trimIn + (currentTime - el.startTime) * (el.playbackRate || 1)\<close>.\<close>

definition sourceTime :: "element \<Rightarrow> real \<Rightarrow> real" where
  "sourceTime el now =
     trimIn (specific el)
     + (now - startTime el)
       * (if playbackRate (specific el) = 0 then 1 else playbackRate (specific el))"

text \<open>The seek loop of one frame, for one element and for all: \<open>videos\<close> maps the id of an
  element to the current time of its loaded video.\<close>

definition seekElement :: "real \<Rightarrow> element \<Rightarrow> (string \<Rightarrow> real option) \<Rightarrow> (string \<Rightarrow> real option)" where
  "seekElement now el videos =
     (if etype el = TVideo \<and> visible el
      then (case videos (ident el) of
              Some vt \<Rightarrow>
                if isInTime el now
                then videos(ident el \<mapsto> seekVideo vt (sourceTime el now))
                else videos
            | None \<Rightarrow> videos)
      else videos)"

definition seekVideos :: "element list \<Rightarrow> real \<Rightarrow> (string \<Rightarrow> real option) \<Rightarrow> (string \<Rightarrow> real option)" where
  "seekVideos els now videos = fold (seekElement now) els videos"

datatype export_error = ExportCancelled | EncodingFailed

text \<open>The state of the frame loop: the videos, the captured frames \<open>frameData\<close> (a frame
  is the list of operations that drew it) and the number of reads of
  \<open>abortSignal.aborted\<close> so far; the \<open>n\<close>-th read returns \<open>aborted n\<close>.\<close>

type_synonym render_state = "(string \<Rightarrow> real option) \<times> cmd list list \<times> nat"

text \<open>Phase 3, \<open>for (let frame = 0; frame < totalFrames; frame++)\<close>, over the frame
  indices still to do.\<close>

primrec renderFrames ::
  "export_env \<Rightarrow> (nat \<Rightarrow> bool) \<Rightarrow> element list \<Rightarrow> real \<Rightarrow> nat list \<Rightarrow> render_state
     \<Rightarrow> export_error + render_state" where
  "renderFrames ex aborted els fps [] st = Inr st"
| "renderFrames ex aborted els fps (frame # rest) st =
     (case st of (videos, frameData, reads) \<Rightarrow>
        if aborted reads then Inl ExportCancelled
        else
          let now = real frame / fps;
              videos' = seekVideos els now videos;
              imageData = renderFrameWithAssets (ex\<lparr> ex_videos := videos' \<rparr>) els now
          in renderFrames ex aborted els fps rest
               (videos', frameData @ [imageData], Suc reads))"

text \<open>The virtual file system of the encoder: frame files and the encoded output.\<close>

datatype 'b vfile = FrameFile "cmd list" | OutputFile 'b

type_synonym 'b vfs = "string \<Rightarrow> 'b vfile option"

definition frameName :: "nat \<Rightarrow> string" where
  "frameName i = ''frame_'' @ padStart 6 CHR ''0'' (showNat i) @ ''.rgba''"

definition outputName :: "ExportSettings \<Rightarrow> string" where
  "outputName settings = ''output.'' @ (case es_format settings of Mp4 \<Rightarrow> ''mp4'' | Webm \<Rightarrow> ''webm'')"

text \<open>Phase 4, the loop writing \<open>frameData[i]\<close> for the indices still to do.\<close>

primrec writeFrames ::
  "(nat \<Rightarrow> bool) \<Rightarrow> cmd list list \<Rightarrow> nat list \<Rightarrow> 'b vfs \<times> nat
     \<Rightarrow> export_error option \<times> 'b vfs \<times> nat" where
  "writeFrames aborted frameData [] st = (None, st)"
| "writeFrames aborted frameData (i # rest) st =
     (if aborted (snd st) then (Some ExportCancelled, st)
      else writeFrames aborted frameData rest
             ((fst st)(frameName i \<mapsto> FrameFile (frameData ! i)), Suc (snd st)))"

text \<open>The cleanup loop \<open>deleteFile(frame_i)\<close>; a failing delete is caught and ignored.\<close>

definition deleteFrames :: "nat list \<Rightarrow> 'b vfs \<Rightarrow> 'b vfs" where
  "deleteFrames is fs = fold (\<lambda>i f. f(frameName i := None)) is fs"

text \<open>
  \<open>exportProject\<close> up to the end of phase 3: \<open>totalFrames\<close> from the duration of the
  composition and the frame rate, and the frame loop over \<open>0 \<le> frame < totalFrames\<close> from
  the videos as loaded, no frame captured and no read of the abort signal yet.
\<close>

definition captureFrames ::
  "export_env \<Rightarrow> (nat \<Rightarrow> bool) \<Rightarrow> ExportSettings \<Rightarrow> element list \<Rightarrow> real
     \<Rightarrow> export_error + render_state" where
  "captureFrames ex aborted settings els projectDuration =
     (let totalFrames = nat \<lceil>projectDuration * es_fps settings\<rceil>
      in renderFrames ex aborted els (es_fps settings) [0 ..< totalFrames]
           (ex_videos ex, [], 0))"

text \<open>
  \<open>exportProject\<close>. The encoder is a parameter: \<open>encode fs settings\<close> is the blob that
  \<open>ffmpeg.exec\<close> followed by \<open>ffmpeg.readFile\<close> yields from the files present, or \<open>None\<close>
  when either fails. The result is the blob or the error thrown, with the file system as
  it is left. Loading the encoder, preloading the assets (\<open>ex_images\<close>, \<open>ex_videos\<close>) and
  the progress callbacks are outside the model.
\<close>

definition exportProject ::
  "export_env \<Rightarrow> ('b vfs \<Rightarrow> ExportSettings \<Rightarrow> 'b option) \<Rightarrow> (nat \<Rightarrow> bool) \<Rightarrow> ExportSettings
     \<Rightarrow> element list \<Rightarrow> real \<Rightarrow> 'b vfs \<Rightarrow> (export_error + 'b) \<times> 'b vfs" where
  "exportProject ex encode aborted settings els projectDuration fs =
     (case captureFrames ex aborted settings els projectDuration of
        Inl err \<Rightarrow> (Inl err, fs)
      | Inr (videos, frameData, reads) \<Rightarrow>
          (case writeFrames aborted frameData [0 ..< length frameData] (fs, reads) of
             (Some err, fs1, reads1) \<Rightarrow> (Inl err, fs1)
           | (None, fs1, reads1) \<Rightarrow>
               (case encode fs1 settings of
                  None \<Rightarrow> (Inl EncodingFailed, fs1)
                | Some blob \<Rightarrow>
                    let fs2 = fs1(outputName settings \<mapsto> OutputFile blob);
                        fs3 = deleteFrames [0 ..< length frameData] fs2;
                        fs4 = fs3(outputName settings := None)
                    in (Inr blob, fs4))))"

text \<open>The state of the videos when iteration \<open>frame\<close> of the frame loop begins: as loaded,
  then as the seek loops of the iterations before it left them.\<close>

definition videosBefore ::
  "element list \<Rightarrow> real \<Rightarrow> (string \<Rightarrow> real option) \<Rightarrow> nat \<Rightarrow> (string \<Rightarrow> real option)" where
  "videosBefore els fps loaded frame =
     fold (\<lambda>f videos. seekVideos els (real f / fps) videos) [0 ..< frame] loaded"

text \<open>The frames the loop captures from a given state of the videos, without the abort
  checks.\<close>

primrec framesFrom ::
  "export_env \<Rightarrow> element list \<Rightarrow> real \<Rightarrow> (string \<Rightarrow> real option) \<Rightarrow> nat list \<Rightarrow> cmd list list" where
  "framesFrom ex els fps videos [] = []"
| "framesFrom ex els fps videos (frame # rest) =
     renderFrameWithAssets (ex\<lparr> ex_videos := seekVideos els (real frame / fps) videos \<rparr>)
        els (real frame / fps)
     # framesFrom ex els fps (seekVideos els (real frame / fps) videos) rest"

text \<open>Sample inputs: 60 frames per second; the sample video loaded and at source time 0;
  an encoder that succeeds and one that fails; an abort signal raised before its fourth
  read.\<close>

definition sampleSettings :: ExportSettings where
  "sampleSettings = \<lparr> es_width = 1920, es_height = 1080, es_fps = 60,
                      es_videoBitrate = ''5M'', es_audioBitrate = ''192k'', es_format = Mp4 \<rparr>"

definition sampleLoaded :: export_env where
  "sampleLoaded = sampleExport\<lparr> ex_videos := (\<lambda>i. if i = ''v1'' then Some 0 else None) \<rparr>"

definition encodeOk :: "nat vfs \<Rightarrow> ExportSettings \<Rightarrow> nat option" where
  "encodeOk fs settings = Some 7"

definition encodeFails :: "nat vfs \<Rightarrow> ExportSettings \<Rightarrow> nat option" where
  "encodeFails fs settings = None"

definition neverAborted :: "nat \<Rightarrow> bool" where
  "neverAborted n = False"

definition abortedAtFourthRead :: "nat \<Rightarrow> bool" where
  "abortedAtFourthRead n = (3 \<le> n)"

definition emptyFs :: "nat vfs" where
  "emptyFs = (\<lambda>n. None)"

text \<open>The captured frames of a finished frame loop (none after an error).\<close>

definition capturedFrames :: "export_error + render_state \<Rightarrow> cmd list list" where
  "capturedFrames r = (case r of Inl err \<Rightarrow> [] | Inr st \<Rightarrow> fst (snd st))"

section \<open>Subtitle interchange (the subtitle parser in src/services/aiEngine.ts, from line 633)\<close>

text \<open>Characters are the code units below 256. \<open>isSpace\<close> is the class \<open>\s\<close> there, which is
  also what \<open>trim\<close> removes: tab, line feed, vertical tab, form feed, carriage return,
  space and no-break space.\<close>

abbreviation NL :: char where
  "NL \<equiv> CHR 0x0A"

definition isSpace :: "char \<Rightarrow> bool" where
  "isSpace c \<longleftrightarrow> c \<in> set [CHR 0x09, CHR 0x0A, CHR 0x0B, CHR 0x0C, CHR 0x0D, CHR '' '', CHR 0xA0]"

definition trim :: "string \<Rightarrow> string" where
  "trim s = rev (dropWhile isSpace (rev (dropWhile isSpace s)))"

definition isDigit :: "char \<Rightarrow> bool" where
  "isDigit c \<longleftrightarrow> c \<in> set ''0123456789''"

text \<open>\<open>parseInt\<close> on a string of decimal digits.\<close>

definition digitVal :: "char \<Rightarrow> nat" where
  "digitVal c = of_char c - 48"

definition parseInt :: "string \<Rightarrow> nat" where
  "parseInt ds = foldl (\<lambda>acc c. acc * 10 + digitVal c) 0 ds"

text \<open>\<open>s.includes(needle)\<close> and \<open>s.indexOf(needle)\<close>.\<close>

definition startsWith :: "string \<Rightarrow> string \<Rightarrow> bool" where
  "startsWith needle s \<longleftrightarrow> take (length needle) s = needle"

fun includesStr :: "string \<Rightarrow> string \<Rightarrow> bool" where
  "includesStr needle [] = (needle = [])"
| "includesStr needle (c # cs) = (startsWith needle (c # cs) \<or> includesStr needle cs)"

fun indexOf :: "string \<Rightarrow> string \<Rightarrow> nat option" where
  "indexOf needle [] = (if needle = [] then Some 0 else None)"
| "indexOf needle (c # cs) =
     (if startsWith needle (c # cs) then Some 0 else map_option Suc (indexOf needle cs))"

text \<open>\<open>lines.join('\n')\<close>.\<close>

fun joinLines :: "string list \<Rightarrow> string" where
  "joinLines [] = []"
| "joinLines [l] = l"
| "joinLines (l # m # ls) = l @ [NL] @ joinLines (m # ls)"

text \<open>
  \<open>.replace(/<[^>]+>/g, '')\<close>: at a \<open><\<close> followed by one or more characters other than
  \<open>>\<close> and then a \<open>>\<close>, all of it is dropped and the scan goes on behind it; any other
  character is kept.
\<close>

definition tagRun :: "string \<Rightarrow> string" where
  "tagRun cs = takeWhile (\<lambda>c. c \<noteq> CHR ''>'') cs"

definition tagAhead :: "string \<Rightarrow> bool" where
  "tagAhead cs \<longleftrightarrow> tagRun cs \<noteq> [] \<and> length (tagRun cs) < length cs"

function stripTags :: "string \<Rightarrow> string" where
  "stripTags [] = []"
| "stripTags (c # cs) =
     (if c = CHR ''<'' \<and> tagAhead cs
      then stripTags (drop (Suc (length (tagRun cs))) cs)
      else c # stripTags cs)"
  by pat_completeness auto
termination
  by (relation "measure length") auto

text \<open>An occurrence of \<open><[^>]+>\<close> in a string.\<close>

fun hasTag :: "string \<Rightarrow> bool" where
  "hasTag [] = False"
| "hasTag (c # cs) = ((c = CHR ''<'' \<and> tagAhead cs) \<or> hasTag cs)"

text \<open>
  \<open>.split(/\n\s*\n/)\<close>: a separator starts at a line feed and, \<open>\s*\<close> being greedy, runs to
  the last line feed of the white space that follows, if there is one.
\<close>

definition blockGap :: "string \<Rightarrow> nat option" where
  "blockGap cs =
     (let ws = takeWhile isSpace cs
      in if NL \<in> set ws
         then Some (length ws - length (takeWhile (\<lambda>c. c \<noteq> NL) (rev ws)))
         else None)"

definition consHead :: "char \<Rightarrow> string list \<Rightarrow> string list" where
  "consHead c bs = (case bs of [] \<Rightarrow> [[c]] | b # rest \<Rightarrow> (c # b) # rest)"

function splitBlocks :: "string \<Rightarrow> string list" where
  "splitBlocks [] = [[]]"
| "splitBlocks (c # cs) =
     (if c = NL
      then (case blockGap cs of
              Some k \<Rightarrow> [] # splitBlocks (drop k cs)
            | None \<Rightarrow> consHead c (splitBlocks cs))
      else consHead c (splitBlocks cs))"
  by pat_completeness auto
termination
  by (relation "measure length") auto

text \<open>The pieces of the timestamp patterns, each on the rest of the line.\<close>

definition digits :: "nat \<Rightarrow> string \<Rightarrow> (nat \<times> string) option" where
  "digits n s =
     (if n \<le> length s \<and> list_all isDigit (take n s)
      then Some (parseInt (take n s), drop n s) else None)"

definition expect :: "string \<Rightarrow> string \<Rightarrow> string option" where
  "expect lit s = (if startsWith lit s then Some (drop (length lit) s) else None)"

definition skipSpace :: "string \<Rightarrow> string" where
  "skipSpace s = dropWhile isSpace s"

text \<open>\<open>(\d{2}):(\d{2}):(\d{2})[,.](\d{3})\<close>, giving the seconds, and the same with \<open>[.]\<close>.\<close>

definition stampHms :: "bool \<Rightarrow> string \<Rightarrow> (real \<times> string) option" where
  "stampHms comma s =
     do {
       (h, s1) \<leftarrow> digits 2 s;
       s2 \<leftarrow> expect '':'' s1;
       (m, s3) \<leftarrow> digits 2 s2;
       s4 \<leftarrow> expect '':'' s3;
       (sec, s5) \<leftarrow> digits 2 s4;
       s6 \<leftarrow> (case expect ''.'' s5 of
                 Some r \<Rightarrow> Some r
               | None \<Rightarrow> if comma then expect '','' s5 else None);
       (ms, s7) \<leftarrow> digits 3 s6;
       Some (real h * 3600 + real m * 60 + real sec + real ms / 1000, s7)
     }"

text \<open>\<open>(\d{2}):(\d{2})[.](\d{3})\<close>: the VTT stamp without hours, \<open>parseInt('0')\<close> hours.\<close>

definition stampMs :: "string \<Rightarrow> (real \<times> string) option" where
  "stampMs s =
     do {
       (m, s1) \<leftarrow> digits 2 s;
       s2 \<leftarrow> expect '':'' s1;
       (sec, s3) \<leftarrow> digits 2 s2;
       s4 \<leftarrow> expect ''.'' s3;
       (ms, s5) \<leftarrow> digits 3 s4;
       Some (real (parseInt ''0'') * 3600 + real m * 60 + real sec + real ms / 1000, s5)
     }"

text \<open>\<open>\s*-->\s*\<close>.\<close>

definition arrow :: "string \<Rightarrow> string option" where
  "arrow s = map_option skipSpace (expect ''-->'' (skipSpace s))"

text \<open>The SRT pattern at the start of \<open>s\<close>, and its first match in \<open>s\<close>.\<close>

definition srtAt :: "string \<Rightarrow> (real \<times> real) option" where
  "srtAt s =
     do {
       (t1, s1) \<leftarrow> stampHms True s;
       s2 \<leftarrow> arrow s1;
       (t2, s3) \<leftarrow> stampHms True s2;
       Some (t1, t2)
     }"

fun srtMatch :: "string \<Rightarrow> (real \<times> real) option" where
  "srtMatch [] = srtAt []"
| "srtMatch (c # cs) = (case srtAt (c # cs) of Some r \<Rightarrow> Some r | None \<Rightarrow> srtMatch cs)"

text \<open>The VTT pattern at the start of \<open>s\<close>: the optional hours group is tried first and
  given up when the rest does not match.\<close>

definition vttStamp2 :: "string \<Rightarrow> (real \<times> string) option" where
  "vttStamp2 s = (case stampHms False s of Some r \<Rightarrow> Some r | None \<Rightarrow> stampMs s)"

definition vttRest :: "real \<times> string \<Rightarrow> (real \<times> real) option" where
  "vttRest r =
     do {
       s2 \<leftarrow> arrow (snd r);
       (t2, s3) \<leftarrow> vttStamp2 s2;
       Some (fst r, t2)
     }"

definition vttAt :: "string \<Rightarrow> (real \<times> real) option" where
  "vttAt s =
     (case Option.bind (stampHms False s) vttRest of
        Some r \<Rightarrow> Some r
      | None \<Rightarrow> Option.bind (stampMs s) vttRest)"

fun vttMatch :: "string \<Rightarrow> (real \<times> real) option" where
  "vttMatch [] = vttAt []"
| "vttMatch (c # cs) = (case vttAt (c # cs) of Some r \<Rightarrow> Some r | None \<Rightarrow> vttMatch cs)"

text \<open>The body of the loop of \<open>parseSRT\<close> on the lines of a block: the cue it pushes, if
  any (start, end, text).\<close>

definition srtCue :: "string list \<Rightarrow> (real \<times> real \<times> string) option" where
  "srtCue lines =
     (if length lines < 3 then None
      else (case srtMatch (lines ! 1) of
              None \<Rightarrow> None
            | Some (startT, endT) \<Rightarrow>
                Some (startT, endT, stripTags (joinLines (drop 2 lines)))))"

text \<open>The body of the loop of \<open>parseVTT\<close>: the timestamp line is the first line that
  includes \<open>-->\<close> (line 0 if none does).\<close>

fun findTimeLine :: "string list \<Rightarrow> nat option" where
  "findTimeLine [] = None"
| "findTimeLine (l # ls) =
     (if includesStr ''-->'' l then Some 0 else map_option Suc (findTimeLine ls))"

definition vttCue :: "string list \<Rightarrow> (real \<times> real \<times> string) option" where
  "vttCue lines =
     (let timeLineIdx = (case findTimeLine lines of Some i \<Rightarrow> i | None \<Rightarrow> 0)
      in case drop timeLineIdx lines of
           [] \<Rightarrow> None
         | timeLine # following \<Rightarrow>
             if \<not> includesStr ''-->'' timeLine then None
             else (case vttMatch timeLine of
                     None \<Rightarrow> None
                   | Some (startT, endT) \<Rightarrow>
                       Some (startT, endT, stripTags (joinLines following))))"

text \<open>Pushing a cue under a new identity (\<open>uid()\<close>, see \<open>bladeClip\<close>).\<close>

definition pushCue ::
  "(nat \<Rightarrow> string) \<Rightarrow> (real \<times> real \<times> string) option \<Rightarrow> SubtitleCue list \<times> nat
     \<Rightarrow> SubtitleCue list \<times> nat" where
  "pushCue gen c st =
     (case c of
        None \<Rightarrow> st
      | Some (startT, endT, txt) \<Rightarrow>
          (fst st @ [\<lparr> cue_id = gen (snd st), cue_startTime = startT, cue_endTime = endT,
                       cue_text = txt \<rparr>],
           Suc (snd st)))"

definition parseSRT :: "(nat \<Rightarrow> string) \<Rightarrow> string \<Rightarrow> nat \<Rightarrow> SubtitleCue list \<times> nat" where
  "parseSRT gen text n =
     fold (\<lambda>block. pushCue gen (srtCue (splitChar NL (trim block))))
       (splitBlocks (trim text)) ([], n)"

definition parseVTT :: "(nat \<Rightarrow> string) \<Rightarrow> string \<Rightarrow> nat \<Rightarrow> SubtitleCue list \<times> nat" where
  "parseVTT gen text n =
     (case indexOf [NL, NL] text of
        None \<Rightarrow> ([], n)
      | Some headerEnd \<Rightarrow>
          let body = drop (headerEnd + 2) text
          in fold (\<lambda>block. pushCue gen (vttCue (splitChar NL (trim block))))
               (splitBlocks (trim body)) ([], n))"

text \<open>Sample inputs: an SRT cue with and without its index line, and a VTT file whose
  first cue has an id line and whose second has none.\<close>

definition srtWithIndex :: string where
  "srtWithIndex = ''1'' @ [NL] @ ''00:00:01,000 --> 00:00:02,500'' @ [NL] @ ''<i>Hello</i>''"

definition srtWithoutIndex :: string where
  "srtWithoutIndex = ''00:00:01,000 --> 00:00:02,500'' @ [NL] @ ''<i>Hello</i>''"

definition vttSample :: string where
  "vttSample = ''WEBVTT'' @ [NL, NL]
     @ ''intro'' @ [NL] @ ''00:00:01.000 --> 00:00:02.500'' @ [NL] @ ''<b>Hello</b>'' @ [NL, NL]
     @ ''00:03.000 --> 00:04.000'' @ [NL] @ ''World''"
section \<open>Properties of the element store\<close>

lemma assign_timing_ok:
  "field_timing_ok f \<Longrightarrow> timing_ok e \<Longrightarrow> timing_ok (assign f e)"
  by (cases f) (simp_all add: timing_ok_def)

lemma merge_timing_ok:
  "list_all field_timing_ok p \<Longrightarrow> timing_ok e \<Longrightarrow> timing_ok (merge e p)"
  unfolding merge_def
  by (induction p arbitrary: e) (simp_all add: assign_timing_ok)

lemma updateElement_timing_ok:
  "list_all field_timing_ok p \<Longrightarrow> list_all timing_ok els
    \<Longrightarrow> list_all timing_ok (updateElement i p els)"
  by (auto simp add: updateElement_def list_all_iff merge_timing_ok)

text \<open>
  C1 (as stated): after any sequence of \<open>updateElement\<close> calls with arbitrary patches, every
  element still has \<open>duration \<ge> 0.1\<close> and \<open>startTime \<ge> 0\<close>. The store merges the patch and
  stores the result unchecked: patching a valid element with \<open>{ duration: 0 }\<close> leaves an
  element of duration 0 in the list.
\<close>

theorem C1_updateElement_unchecked_counterexample:
  "list_all timing_ok [sampleText] \<and>
   \<not> list_all timing_ok (updateElements [(''t1'', [P_duration 0])] [sampleText])"
  by (simp add: updateElements_def updateElement_def merge_def timing_ok_def sampleText_def)

text \<open>
  C1 (amended): \<open>updateElement\<close> performs no validation of its own; the timing invariants
  survive every sequence of calls whose patches, wherever they assign \<open>startTime\<close> or
  \<open>duration\<close>, assign a \<open>startTime \<ge> 0\<close> and a \<open>duration \<ge> 0.1\<close>.
\<close>

theorem C1_updateElements_preserve_timing:
  assumes "list_all timing_ok els"
    and "list_all (\<lambda>(i, p). list_all field_timing_ok p) calls"
  shows "list_all timing_ok (updateElements calls els)"
  using assms unfolding updateElements_def
proof (induction calls arbitrary: els)
  case Nil
  then show ?case by simp
next
  case (Cons c calls)
  obtain i p where c: "c = (i, p)" by (cases c)
  from Cons.prems c have "list_all timing_ok (updateElement i p els)"
    by (simp add: updateElement_timing_ok)
  with Cons show ?case by (simp add: c)
qed

theorem C1_updateElements_preserve_timing_witness:
  "list_all timing_ok [sampleText, sampleVideo] \<and>
   list_all (\<lambda>(i, p). list_all field_timing_ok p)
     [(''t1'', [P_startTime 2, P_duration 3]), (''v1'', [P_trimIn 1])] \<and>
   list_all timing_ok
     (updateElements [(''t1'', [P_startTime 2, P_duration 3]), (''v1'', [P_trimIn 1])]
        [sampleText, sampleVideo])"
  using C1_updateElements_preserve_timing
    [of "[sampleText, sampleVideo]"
        "[(''t1'', [P_startTime 2, P_duration 3]), (''v1'', [P_trimIn 1])]"]
  by (simp add: timing_ok_def sampleText_def sampleVideo_def)


section \<open>Properties of the editing engine\<close>

lemma snapTry_fold_snoc:
  "fold (snapTry t) (cs @ [c]) bd = snapTry t c (fold (snapTry t) cs bd)"
  by simp

lemma snapClip_as_tries:
  "fold (snapClip t ig) els bd = fold (snapTry t) (clipEdges ig els) bd"
  by (induction els arbitrary: bd) (auto simp: snapClip_def clipEdges_def)

lemma snapTime_as_scan:
  "snapEnabled env \<Longrightarrow>
   snapTime env t ig =
     fst (fold (snapTry t) (snapCandidates env t ig) (t, pxToTime (timelineZoom env) 8))"
  by (simp add: snapTime_def snapCandidates_def snapClip_as_tries Let_def snapTry_def)

lemma snapTry_hit: "\<bar>t - c\<bar> < d \<Longrightarrow> snapTry t c (b, d) = (c, \<bar>t - c\<bar>)"
  by (simp add: snapTry_def)

lemma snapTry_miss: "\<not> \<bar>t - c\<bar> < d \<Longrightarrow> snapTry t c (b, d) = (b, d)"
  by (simp add: snapTry_def)

text \<open>What a scan of candidates leaves behind: either nothing was strictly closer than
  the starting distance, or the first of the closest candidates.\<close>

lemma snap_scan_result:
  "(fold (snapTry t) cs (b, d) = (b, d) \<and> (\<forall>c \<in> set cs. \<not> \<bar>t - c\<bar> < d))
   \<or> (\<exists>i < length cs.
         fold (snapTry t) cs (b, d) = (cs ! i, \<bar>t - cs ! i\<bar>)
         \<and> \<bar>t - cs ! i\<bar> < d
         \<and> (\<forall>c \<in> set cs. \<bar>t - cs ! i\<bar> \<le> \<bar>t - c\<bar>)
         \<and> (\<forall>j < i. \<bar>t - cs ! i\<bar> < \<bar>t - cs ! j\<bar>))"
proof (induction cs rule: rev_induct)
  case Nil
  then show ?case by simp
next
  case (snoc c cs)
  let ?r = "fold (snapTry t) cs (b, d)"
  from snoc.IH show ?case
  proof (elim disjE exE conjE)
    assume same: "?r = (b, d)" and far: "\<forall>c \<in> set cs. \<not> \<bar>t - c\<bar> < d"
    show ?thesis
    proof (cases "\<bar>t - c\<bar> < d")
      case True
      have "fold (snapTry t) (cs @ [c]) (b, d) = (c, \<bar>t - c\<bar>)"
        using same True by (simp add: snapTry_hit)
      moreover have "\<forall>x \<in> set (cs @ [c]). \<bar>t - c\<bar> \<le> \<bar>t - x\<bar>"
        using far True by auto
      moreover have "\<forall>j < length cs. \<bar>t - c\<bar> < \<bar>t - (cs @ [c]) ! j\<bar>"
        using far True by (auto simp: nth_append) (metis nth_mem not_less order.strict_trans2)
      ultimately show ?thesis
        using True by (intro disjI2 exI[of _ "length cs"]) (simp add: nth_append)
    next
      case False
      then show ?thesis using same far by (intro disjI1) (simp add: snapTry_miss)
    qed
  next
    fix i
    assume i: "i < length cs"
      and res: "?r = (cs ! i, \<bar>t - cs ! i\<bar>)"
      and lt: "\<bar>t - cs ! i\<bar> < d"
      and best: "\<forall>c \<in> set cs. \<bar>t - cs ! i\<bar> \<le> \<bar>t - c\<bar>"
      and first: "\<forall>j < i. \<bar>t - cs ! i\<bar> < \<bar>t - cs ! j\<bar>"
    show ?thesis
    proof (cases "\<bar>t - c\<bar> < \<bar>t - cs ! i\<bar>")
      case True
      have "fold (snapTry t) (cs @ [c]) (b, d) = (c, \<bar>t - c\<bar>)"
        using res True by (simp add: snapTry_hit)
      moreover have "\<forall>x \<in> set (cs @ [c]). \<bar>t - c\<bar> \<le> \<bar>t - x\<bar>"
        using best True by fastforce
      moreover have "\<forall>j < length cs. \<bar>t - c\<bar> < \<bar>t - (cs @ [c]) ! j\<bar>"
      proof (intro allI impI)
        fix j assume j: "j < length cs"
        then have "\<bar>t - cs ! i\<bar> \<le> \<bar>t - cs ! j\<bar>" using best by simp
        then show "\<bar>t - c\<bar> < \<bar>t - (cs @ [c]) ! j\<bar>" using True j by (simp add: nth_append)
      qed
      moreover have "\<bar>t - c\<bar> < d" using True lt by simp
      ultimately show ?thesis
        by (intro disjI2 exI[of _ "length cs"]) (simp add: nth_append)
    next
      case False
      have "fold (snapTry t) (cs @ [c]) (b, d) = (cs ! i, \<bar>t - cs ! i\<bar>)"
        using res False by (simp add: snapTry_miss)
      moreover have "\<forall>x \<in> set (cs @ [c]). \<bar>t - cs ! i\<bar> \<le> \<bar>t - x\<bar>"
        using best False by auto
      ultimately show ?thesis
        using i lt first by (intro disjI2 exI[of _ i]) (simp add: nth_append)
    qed
  qed
qed

text \<open>
  C4: with snapping enabled (and a positive zoom, so that the threshold \<open>8 / zoom\<close> pixels
  is a time), \<open>snapTime t ignoreId\<close> returns \<open>t\<close> unchanged when no candidate (playhead, a
  start or end edge of another element, the nearest whole second) is within the threshold
  of \<open>t\<close>, that is strictly closer than it; otherwise it returns a closest candidate, and
  among equally close ones the one scanned first: every candidate scanned before the
  returned one is strictly farther from \<open>t\<close>.
\<close>

theorem C4_snapTime_closest_first:
  assumes "snapEnabled env" and "0 < timelineZoom env"
  shows "((\<forall>c \<in> set (snapCandidates env t ig). \<not> \<bar>t - c\<bar> < pxToTime (timelineZoom env) 8)
            \<longrightarrow> snapTime env t ig = t)
       \<and> ((\<exists>c \<in> set (snapCandidates env t ig). \<bar>t - c\<bar> < pxToTime (timelineZoom env) 8)
            \<longrightarrow> (\<exists>i < length (snapCandidates env t ig).
                   snapTime env t ig = snapCandidates env t ig ! i
                   \<and> \<bar>t - snapCandidates env t ig ! i\<bar> < pxToTime (timelineZoom env) 8
                   \<and> (\<forall>c \<in> set (snapCandidates env t ig).
                        \<bar>t - snapCandidates env t ig ! i\<bar> \<le> \<bar>t - c\<bar>)
                   \<and> (\<forall>j < i. \<bar>t - snapCandidates env t ig ! i\<bar>
                                 < \<bar>t - snapCandidates env t ig ! j\<bar>)))"
proof -
  let ?cs = "snapCandidates env t ig"
  let ?d = "pxToTime (timelineZoom env) 8"
  have scan: "snapTime env t ig = fst (fold (snapTry t) ?cs (t, ?d))"
    using assms(1) by (rule snapTime_as_scan)
  from snap_scan_result[of t ?cs t ?d] show ?thesis
  proof (elim disjE exE conjE)
    assume "fold (snapTry t) ?cs (t, ?d) = (t, ?d)" and "\<forall>c \<in> set ?cs. \<not> \<bar>t - c\<bar> < ?d"
    then show ?thesis using scan by auto
  next
    fix i
    assume i: "i < length ?cs"
      and res: "fold (snapTry t) ?cs (t, ?d) = (?cs ! i, \<bar>t - ?cs ! i\<bar>)"
      and lt: "\<bar>t - ?cs ! i\<bar> < ?d"
      and best: "\<forall>c \<in> set ?cs. \<bar>t - ?cs ! i\<bar> \<le> \<bar>t - c\<bar>"
      and first: "\<forall>j < i. \<bar>t - ?cs ! i\<bar> < \<bar>t - ?cs ! j\<bar>"
    have far: "\<not> (\<forall>c \<in> set ?cs. \<not> \<bar>t - c\<bar> < ?d)"
      using i lt nth_mem by blast
    have "\<exists>i < length ?cs. snapTime env t ig = ?cs ! i \<and> \<bar>t - ?cs ! i\<bar> < ?d
            \<and> (\<forall>c \<in> set ?cs. \<bar>t - ?cs ! i\<bar> \<le> \<bar>t - c\<bar>)
            \<and> (\<forall>j < i. \<bar>t - ?cs ! i\<bar> < \<bar>t - ?cs ! j\<bar>)"
      using i res lt best first scan by (intro exI[of _ i]) simp
    then show ?thesis using far by blast
  qed
qed

theorem C4_snapTime_closest_first_witness:
  "snapEnabled sampleEnv \<and> 0 < timelineZoom sampleEnv
   \<and> snapTime sampleEnv (99 / 20) (Some ''v1'') = 5
   \<and> snapTime sampleEnv (9 / 2) (Some ''v1'') = 9 / 2"
proof -
  have h1: "snapEnabled sampleEnv" by (simp add: sampleEnv_def)
  have h2: "0 < timelineZoom sampleEnv" by (simp add: sampleEnv_def)
  have thr: "pxToTime (timelineZoom sampleEnv) 8 = 1 / 10"
    by (simp add: pxToTime_def sampleEnv_def)
  have r: "round (99 / 20 :: real) = 5" "round (9 / 2 :: real) = 5"
    by (simp_all add: round_def)
  have cs1: "snapCandidates sampleEnv (99 / 20) (Some ''v1'') = [5, 0, 10, 5]"
    by (simp add: snapCandidates_def clipEdges_def sampleEnv_def sampleText_def
        sampleVideo_def r)
  have cs2: "snapCandidates sampleEnv (9 / 2) (Some ''v1'') = [5, 0, 10, 5]"
    by (simp add: snapCandidates_def clipEdges_def sampleEnv_def sampleText_def
        sampleVideo_def r)
  note near = C4_snapTime_closest_first[OF h1 h2, of "99 / 20" "Some ''v1''"]
  note far = C4_snapTime_closest_first[OF h1 h2, of "9 / 2" "Some ''v1''"]
  have ex: "\<exists>c \<in> set [5, 0, 10, 5 :: real]. \<bar>99 / 20 - c\<bar> < 1 / 10" by simp
  from conjunct2[OF near, unfolded cs1 thr] ex
  have "\<exists>i < length [5, 0, 10, 5 :: real].
          snapTime sampleEnv (99 / 20) (Some ''v1'') = [5, 0, 10, 5 :: real] ! i
          \<and> \<bar>99 / 20 - [5, 0, 10, 5 :: real] ! i\<bar> < 1 / 10
          \<and> (\<forall>c \<in> set [5, 0, 10, 5 :: real].
                \<bar>99 / 20 - [5, 0, 10, 5 :: real] ! i\<bar> \<le> \<bar>99 / 20 - c\<bar>)
          \<and> (\<forall>j < i. \<bar>99 / 20 - [5, 0, 10, 5 :: real] ! i\<bar>
                        < \<bar>99 / 20 - [5, 0, 10, 5 :: real] ! j\<bar>)"
    by (rule mp)
  then obtain i where i': "i < length [5, 0, 10, 5 :: real]"
    and v: "snapTime sampleEnv (99 / 20) (Some ''v1'') = [5, 0, 10, 5 :: real] ! i"
    and d: "\<bar>99 / 20 - [5, 0, 10, 5 :: real] ! i\<bar> < 1 / 10"
    by blast
  from i' have i: "i < 4" by simp
  from i consider "i = 0" | "i = 1" | "i = 2" | "i = 3" by linarith
  then have v1: "snapTime sampleEnv (99 / 20) (Some ''v1'') = 5"
    using v d by cases simp_all
  have v2: "snapTime sampleEnv (9 / 2) (Some ''v1'') = 9 / 2"
    using conjunct1[OF far, unfolded cs2 thr] by simp
  show ?thesis using h1 h2 v1 v2 by blast
qed

lemma clamp_bounds: "lo \<le> hi \<Longrightarrow> lo \<le> clamp v lo hi \<and> clamp v lo hi \<le> hi"
  by (simp add: clamp_def)

lemma find_ident: "find (\<lambda>e. ident e = i) els = Some el \<Longrightarrow> ident el = i \<and> el \<in> set els"
  by (induction els) (auto split: if_splits)

text \<open>
  C5 (as stated): in a trim-left drag of a video or audio clip, \<open>trimIn\<close> becomes
  \<open>refTrimIn\<close> shifted by the delta \<open>newStart - refStart\<close>. The code floors the shifted value
  at 0: a clip on 5 s .. 10 s with \<open>trimIn = 0\<close>, its left edge dragged 1 s to the left
  (80 pixels at zoom 80, snapping off), starts at 4 s and keeps \<open>trimIn = 0\<close>, where the
  shift by the same delta would give \<open>-1\<close>.
\<close>

theorem C5_trimIn_floor_counterexample:
  "trimLeftStart sampleEnvNoSnap sampleDrag ''v1'' (- 1) = 4
   \<and> map (trimIn \<circ> specific) (trimLeftMove sampleEnvNoSnap sampleDrag ''v1'' (- 80)) = [0]
   \<and> (0 :: real) \<noteq> ds_trimIn sampleDrag + (4 - ds_startTime sampleDrag)"
  by (simp add: trimLeftStart_def trimLeftMove_def sampleEnvNoSnap_def sampleDrag_def
      sampleClip_def sampleVideo_def snapTime_def clamp_def pxToTime_def
      updateElement_def merge_def isMedia_def Let_def)

text \<open>
  C5 (amended): for a reference snapshot with \<open>refStart \<ge> 0\<close> and \<open>refDuration \<ge> 0.1\<close> and
  the pointer delta \<open>\<Delta>t\<close> (the pixel delta over the zoom), the trim-left drag gives the
  dragged element the start \<open>newStart = clamp(refStart + \<Delta>t, 0, refStart + refDuration - 0.1)\<close>,
  snapped, then clamped to the same range again, and the duration
  \<open>refDuration - (newStart - refStart)\<close>, so the end edge stays at \<open>refStart + refDuration\<close>;
  for a video or audio element \<open>trimIn\<close> becomes \<open>max(0, refTrimIn + (newStart - refStart))\<close>:
  shifted by the same delta, but never below 0. Every other element is unchanged.
\<close>

theorem C5_trimLeft_drag:
  assumes "find (\<lambda>e. ident e = dragId) (elements env) = Some el"
    and "0 \<le> ds_startTime ds" and "1 / 10 \<le> ds_duration ds"
  shows "let newStart = trimLeftStart env ds dragId
                          (pxToTime (timelineZoom env) (clientX - ds_mouseX ds));
             newDuration = ds_duration ds - (newStart - ds_startTime ds)
         in trimLeftMove env ds dragId clientX =
              map (\<lambda>e. if ident e = dragId
                        then e\<lparr> startTime := newStart, duration := newDuration,
                               specific :=
                                 (if isMedia el
                                  then set_trimIn
                                         (max 0 (ds_trimIn ds + (newStart - ds_startTime ds)))
                                         (specific e)
                                  else specific e) \<rparr>
                        else e) (elements env)
            \<and> 0 \<le> newStart \<and> newStart \<le> ds_startTime ds + ds_duration ds - 1 / 10
            \<and> newStart + newDuration = ds_startTime ds + ds_duration ds"
proof -
  let ?hi = "ds_startTime ds + ds_duration ds - 1 / 10"
  let ?ns = "trimLeftStart env ds dragId (pxToTime (timelineZoom env) (clientX - ds_mouseX ds))"
  have hi: "0 \<le> ?hi" using assms(2,3) by simp
  have b: "0 \<le> ?ns \<and> ?ns \<le> ?hi"
    unfolding trimLeftStart_def by (rule clamp_bounds[OF hi])
  then have d: "max (1 / 10) (ds_duration ds - (?ns - ds_startTime ds))
                  = ds_duration ds - (?ns - ds_startTime ds)"
    by simp
  have "trimLeftMove env ds dragId clientX =
          (let els1 = updateElement dragId
                        [P_startTime ?ns,
                         P_duration (max (1 / 10) (ds_duration ds - (?ns - ds_startTime ds)))]
                        (elements env)
           in if isMedia el
              then updateElement dragId
                     [P_trimIn (max 0 (ds_trimIn ds + (?ns - ds_startTime ds)))] els1
              else els1)"
    using assms(1) by (simp add: trimLeftMove_def trimLeftStart_def Let_def)
  also have "\<dots> = map (\<lambda>e. if ident e = dragId
                        then e\<lparr> startTime := ?ns,
                               duration := ds_duration ds - (?ns - ds_startTime ds),
                               specific :=
                                 (if isMedia el
                                  then set_trimIn
                                         (max 0 (ds_trimIn ds + (?ns - ds_startTime ds)))
                                         (specific e)
                                  else specific e) \<rparr>
                        else e) (elements env)"
    unfolding d by (simp add: updateElement_def merge_def Let_def)
  finally show ?thesis using b by (simp add: Let_def)
qed

theorem C5_trimLeft_drag_witness:
  "find (\<lambda>e. ident e = ''v1'') (elements sampleEnvNoSnap) = Some sampleClip
   \<and> 0 \<le> ds_startTime sampleDrag \<and> 1 / 10 \<le> ds_duration sampleDrag
   \<and> trimLeftMove sampleEnvNoSnap sampleDrag ''v1'' 160 =
       [sampleClip\<lparr> startTime := 7, duration := 3,
                    specific := set_trimIn 2 (specific sampleClip) \<rparr>]"
proof -
  have h1: "find (\<lambda>e. ident e = ''v1'') (elements sampleEnvNoSnap) = Some sampleClip"
    by (simp add: sampleEnvNoSnap_def sampleClip_def sampleVideo_def)
  have h2: "0 \<le> ds_startTime sampleDrag" by (simp add: sampleDrag_def)
  have h3: "1 / 10 \<le> ds_duration sampleDrag" by (simp add: sampleDrag_def)
  have ns: "trimLeftStart sampleEnvNoSnap sampleDrag ''v1''
              (pxToTime (timelineZoom sampleEnvNoSnap) (160 - ds_mouseX sampleDrag)) = 7"
    by (simp add: trimLeftStart_def sampleEnvNoSnap_def sampleDrag_def snapTime_def
        clamp_def pxToTime_def)
  have "trimLeftMove sampleEnvNoSnap sampleDrag ''v1'' 160 =
       [sampleClip\<lparr> startTime := 7, duration := 3,
                    specific := set_trimIn 2 (specific sampleClip) \<rparr>]"
    using C5_trimLeft_drag[OF h1 h2 h3, of 160]
    unfolding Let_def ns
    by (simp add: isMedia_def sampleEnvNoSnap_def sampleDrag_def sampleClip_def sampleVideo_def)
  then show ?thesis using h1 h2 h3 by simp
qed

text \<open>
  C6: a blade click at time \<open>t\<close> on element \<open>e\<close>. If \<open>t\<close> is strictly inside the window of
  \<open>e\<close>, the duration of \<open>e\<close> in the list becomes \<open>t - startTime\<close> and a copy of \<open>e\<close> is
  appended with a new identity, \<open>startTime = t\<close>, the remaining duration
  \<open>duration - (t - startTime)\<close> and, for video and audio, \<open>trimIn\<close> advanced by the split
  offset \<open>t - startTime\<close>; if \<open>t\<close> is at or outside the window the list is unchanged.
  \<open>splitAtPlayhead\<close> does the same to a selected element at the playhead.
\<close>

theorem C6_blade_split:
  "(startTime e < t \<and> t < startTime e + duration e \<longrightarrow>
      bladeClip gen e t (els, n) =
        (map (\<lambda>x. if ident x = ident e then x\<lparr> duration := t - startTime e \<rparr> else x) els
         @ [e\<lparr> ident := gen n, name := name e @ '' (2)'', startTime := t,
               duration := duration e - (t - startTime e),
               specific := (if isMedia e
                            then set_trimIn (trimInOr0 e + (t - startTime e)) (specific e)
                            else specific e) \<rparr>],
         Suc n)
      \<and> (isMedia e \<longrightarrow>
           trimIn (set_trimIn (trimInOr0 e + (t - startTime e)) (specific e))
             = trimIn (specific e) + (t - startTime e)))
   \<and> (\<not> (startTime e < t \<and> t < startTime e + duration e) \<longrightarrow>
        bladeClip gen e t (els, n) = (els, n))
   \<and> (find (\<lambda>x. ident x = i) els = Some e \<longrightarrow>
        splitAtPlayhead gen els t [i] (els, n) = bladeClip gen e t (els, n))"
proof (intro conjI impI)
  assume "startTime e < t \<and> t < startTime e + duration e"
  then show "bladeClip gen e t (els, n) =
        (map (\<lambda>x. if ident x = ident e then x\<lparr> duration := t - startTime e \<rparr> else x) els
         @ [e\<lparr> ident := gen n, name := name e @ '' (2)'', startTime := t,
               duration := duration e - (t - startTime e),
               specific := (if isMedia e
                            then set_trimIn (trimInOr0 e + (t - startTime e)) (specific e)
                            else specific e) \<rparr>],
         Suc n)"
    by (simp add: bladeClip_def Let_def updateElement_def merge_def addElement_def isMedia_def)
next
  assume "isMedia e"
  then show "trimIn (set_trimIn (trimInOr0 e + (t - startTime e)) (specific e))
             = trimIn (specific e) + (t - startTime e)"
    by (cases "specific e") (simp_all add: isMedia_def)
next
  assume "\<not> (startTime e < t \<and> t < startTime e + duration e)"
  then show "bladeClip gen e t (els, n) = (els, n)"
    by (auto simp: bladeClip_def)
next
  assume "find (\<lambda>x. ident x = i) els = Some e"
  then show "splitAtPlayhead gen els t [i] (els, n) = bladeClip gen e t (els, n)"
    by (simp add: splitAtPlayhead_def splitOne_def bladeClip_def)
qed

theorem C6_blade_split_witness:
  "bladeClip sampleGen sampleClip 7 ([sampleText, sampleClip], 0) =
     ([sampleText, sampleClip\<lparr> duration := 2 \<rparr>,
       sampleClip\<lparr> ident := ''n'', name := ''Video (2)'', startTime := 7, duration := 3,
                   specific := Video [] ''clip.mp4'' 2 10 1 1 False Contain \<rparr>], 1)
   \<and> bladeClip sampleGen sampleClip 5 ([sampleText, sampleClip], 0)
       = ([sampleText, sampleClip], 0)
   \<and> splitAtPlayhead sampleGen [sampleText, sampleClip] 7 [''v1''] ([sampleText, sampleClip], 0)
       = bladeClip sampleGen sampleClip 7 ([sampleText, sampleClip], 0)"
proof -
  have f: "find (\<lambda>x. ident x = ''v1'') [sampleText, sampleClip] = Some sampleClip"
    by (simp add: sampleText_def sampleClip_def sampleVideo_def)
  have m: "isMedia sampleClip" by (simp add: isMedia_def sampleClip_def sampleVideo_def)
  have w1: "startTime sampleClip < 7 \<and> 7 < startTime sampleClip + duration sampleClip"
    by (simp add: sampleClip_def)
  have w2: "\<not> (startTime sampleClip < 5 \<and> 5 < startTime sampleClip + duration sampleClip)"
    by (simp add: sampleClip_def)
  note c7 = C6_blade_split[of sampleClip 7 sampleGen "[sampleText, sampleClip]" 0 "''v1''"]
  note c5 = C6_blade_split[of sampleClip 5 sampleGen "[sampleText, sampleClip]" 0 "''v1''"]
  have a: "bladeClip sampleGen sampleClip 7 ([sampleText, sampleClip], 0) =
     ([sampleText, sampleClip\<lparr> duration := 2 \<rparr>,
       sampleClip\<lparr> ident := ''n'', name := ''Video (2)'', startTime := 7, duration := 3,
                   specific := Video [] ''clip.mp4'' 2 10 1 1 False Contain \<rparr>], 1)"
    using c7 w1 m
    by (simp add: sampleGen_def sampleText_def sampleClip_def sampleVideo_def)
  have b: "bladeClip sampleGen sampleClip 5 ([sampleText, sampleClip], 0)
       = ([sampleText, sampleClip], 0)"
    using c5 w2 by blast
  have c: "splitAtPlayhead sampleGen [sampleText, sampleClip] 7 [''v1'']
             ([sampleText, sampleClip], 0)
           = bladeClip sampleGen sampleClip 7 ([sampleText, sampleClip], 0)"
    using c7 f by blast
  show ?thesis using a b c by blast
qed

section \<open>Properties of region materialization\<close>

lemma applyRegions_layout:
  "applyRegions gen orig rs off (els, n) =
     (els @ map (\<lambda>i. orig\<lparr> ident := gen (n + i),
                         name := name orig @ '' ['' @ formatTime (r_start (rs ! i)) @ '']'',
                         startTime := off + lengthBefore rs i,
                         duration := r_end (rs ! i) - r_start (rs ! i),
                         specific := set_trimOut (trimInOr0 orig + r_end (rs ! i))
                                       (set_trimIn (trimInOr0 orig + r_start (rs ! i))
                                          (specific orig)) \<rparr>)
               [0 ..< length rs],
      n + length rs)"
proof (induction rs arbitrary: off els n)
  case Nil
  then show ?case by simp
next
  case (Cons r rs)
  show ?case
    by (simp add: Cons.IH Let_def addElement_def map_upt_Suc lengthBefore_def regionLength_def
        add.assoc del: upt_Suc)
qed

lemma formatTime_1: "formatTime 1 = ''00:01.00''"
  by (simp add: formatTime_def jsRem_def jsTrunc_def showInt_def padStart_def showNat.simps)

lemma formatTime_6: "formatTime 6 = ''00:06.00''"
  by (simp add: formatTime_def jsRem_def jsTrunc_def showInt_def padStart_def showNat.simps)

text \<open>
  C9 (as stated): every new element inherits every field of the source other than the
  identity, \<open>startTime\<close>, \<open>duration\<close>, \<open>trimIn\<close> and \<open>trimOut\<close>. The code also renames each new
  element: the 10 s source named \<open>Video\<close> with keep-regions (1, 3) and (6, 9) becomes two
  elements named \<open>Video [00:01.00]\<close> and \<open>Video [00:06.00]\<close>.
\<close>

theorem C9_name_not_inherited_counterexample:
  "map name (fst (handleApply sampleGen (Some sampleRegions) [''v1'']
                    ([sampleText, sampleVideo], 0)))
     = [''Text'', ''Video [00:01.00]'', ''Video [00:06.00]'']
   \<and> name sampleVideo = ''Video''"
  by (simp add: handleApply_def selectedMedia_def isMedia_def deleteElements_def
      sampleRegions_def sampleText_def sampleVideo_def Let_def addElement_def
      formatTime_1 formatTime_6)

text \<open>
  C9 (amended): when the selected video or audio element \<open>orig\<close> has N \<open>\<ge>\<close> 1 keep-regions
  (the regions of type speech, in order) \<open>(s\<^sub>1, e\<^sub>1), \<dots>, (s\<^sub>N, e\<^sub>N)\<close>, applying them removes
  \<open>orig\<close> from the list and appends exactly N new elements laid out back-to-back from the
  start time of \<open>orig\<close>; the i-th has duration \<open>e\<^sub>i - s\<^sub>i\<close>, \<open>trimIn = sourceTrimIn + s\<^sub>i\<close>,
  \<open>trimOut = sourceTrimIn + e\<^sub>i\<close>, a new identity, the name of \<open>orig\<close> followed by
  \<open>[formatTime(s\<^sub>i)]\<close>, and every other field of \<open>orig\<close>. With no keep-region the list is left
  as it is.
\<close>

theorem C9_region_materialization:
  assumes "selectedMedia els selectedIds = Some orig"
  shows "(filter (\<lambda>r. r_type r = Speech) rs \<noteq> [] \<longrightarrow>
            (let keep = filter (\<lambda>r. r_type r = Speech) rs in
             handleApply gen (Some rs) selectedIds (els, n) =
               (deleteElements [ident orig] els
                @ map (\<lambda>i. orig\<lparr> ident := gen (n + i),
                                name := name orig @ '' ['' @ formatTime (r_start (keep ! i)) @ '']'',
                                startTime := startTime orig + lengthBefore keep i,
                                duration := r_end (keep ! i) - r_start (keep ! i),
                                specific := set_trimOut (trimInOr0 orig + r_end (keep ! i))
                                              (set_trimIn (trimInOr0 orig + r_start (keep ! i))
                                                 (specific orig)) \<rparr>)
                      [0 ..< length keep],
                n + length keep)))
       \<and> (filter (\<lambda>r. r_type r = Speech) rs = [] \<longrightarrow>
            handleApply gen (Some rs) selectedIds (els, n) = (els, n))
       \<and> trimIn (set_trimOut b (set_trimIn a (specific orig))) = a
       \<and> trimOut (set_trimOut b (set_trimIn a (specific orig))) = b"
proof -
  from assms have "isMedia orig"
    unfolding selectedMedia_def by (induction els) (auto split: if_splits)
  then have t: "trimIn (set_trimOut b (set_trimIn a (specific orig))) = a
              \<and> trimOut (set_trimOut b (set_trimIn a (specific orig))) = b"
    by (cases "specific orig") (simp_all add: isMedia_def)
  show ?thesis
    using assms t by (simp add: handleApply_def Let_def applyRegions_layout)
qed

theorem C9_region_materialization_witness:
  "selectedMedia [sampleText, sampleVideo] [''v1''] = Some sampleVideo
   \<and> handleApply sampleGen (Some sampleRegions) [''v1''] ([sampleText, sampleVideo], 0) =
       ([sampleText,
         sampleVideo\<lparr> ident := ''n'', name := ''Video [00:01.00]'', startTime := 0,
                      duration := 2,
                      specific := Video [] ''clip.mp4'' 1 3 1 1 False Contain \<rparr>,
         sampleVideo\<lparr> ident := ''nn'', name := ''Video [00:06.00]'', startTime := 2,
                      duration := 3,
                      specific := Video [] ''clip.mp4'' 6 9 1 1 False Contain \<rparr>], 2)"
proof -
  have h: "selectedMedia [sampleText, sampleVideo] [''v1''] = Some sampleVideo"
    by (simp add: selectedMedia_def isMedia_def sampleText_def sampleVideo_def)
  have k: "filter (\<lambda>r. r_type r = Speech) sampleRegions =
             [\<lparr> r_start = 1, r_end = 3, r_type = Speech, r_rms = 1 / 2 \<rparr>,
              \<lparr> r_start = 6, r_end = 9, r_type = Speech, r_rms = 1 / 2 \<rparr>]"
    by (simp add: sampleRegions_def)
  have u: "[0 ..< 2] = [0, Suc 0]" by (simp add: upt_rec)
  have "handleApply sampleGen (Some sampleRegions) [''v1''] ([sampleText, sampleVideo], 0) =
       ([sampleText,
         sampleVideo\<lparr> ident := ''n'', name := ''Video [00:01.00]'', startTime := 0,
                      duration := 2,
                      specific := Video [] ''clip.mp4'' 1 3 1 1 False Contain \<rparr>,
         sampleVideo\<lparr> ident := ''nn'', name := ''Video [00:06.00]'', startTime := 2,
                      duration := 3,
                      specific := Video [] ''clip.mp4'' 6 9 1 1 False Contain \<rparr>], 2)"
    using conjunct1[OF C9_region_materialization[OF h, of sampleRegions sampleGen 0 0 0]]
    unfolding k Let_def
    by (simp add: u deleteElements_def lengthBefore_def regionLength_def sampleGen_def
        sampleText_def sampleVideo_def formatTime_1 formatTime_6)
  then show ?thesis using h by simp
qed

section \<open>Properties of the two renderers\<close>

lemma nodeBody_drawsBoth: "drawsBoth el \<Longrightarrow> \<exists>b. nodeBody el = Some b"
  by (cases "specific el") (simp_all add: drawsBoth_def nodeBody_def)

lemma exportHasContent_drawsBoth: "exportHasContent ex el \<Longrightarrow> drawsBoth el"
  by (cases "specific el") (simp_all add: drawsBoth_def exportHasContent_def)

lemma animStyleOf_none:
  "animation el = AnimNone \<Longrightarrow> animationExit el = AnimNone \<Longrightarrow> animStyleOf pv el b = noStyle"
  by (simp add: animStyleOf_def)

lemma splitChar_not_Nil: "splitChar sep str \<noteq> []"
  by (cases str) (simp_all split: list.split)

lemma splitChar_word:
  "c \<in> set str \<Longrightarrow> c \<noteq> sep \<Longrightarrow> \<exists>w \<in> set (splitChar sep str). w \<noteq> []"
proof (induction str)
  case Nil
  then show ?case by simp
next
  case (Cons x xs)
  show ?case
  proof (cases "x = sep")
    case True
    with Cons show ?thesis by auto
  next
    case False
    obtain w ws where "splitChar sep xs = w # ws"
      using splitChar_not_Nil[of sep xs] by (cases "splitChar sep xs") auto
    with False show ?thesis by simp
  qed
qed

lemma wrapStep_keeps:
  "fst st \<noteq> [] \<or> snd st \<noteq> []
    \<Longrightarrow> fst (wrapStep meas maxw word st) \<noteq> [] \<or> snd (wrapStep meas maxw word st) \<noteq> []"
  unfolding wrapStep_def Let_def by (cases "snd st = []") simp_all

lemma wrapStep_starts:
  "word \<noteq> []
    \<Longrightarrow> fst (wrapStep meas maxw word st) \<noteq> [] \<or> snd (wrapStep meas maxw word st) \<noteq> []"
  unfolding wrapStep_def Let_def by (cases "snd st = []") simp_all

lemma wrap_fold:
  "(\<exists>w \<in> set ws. w \<noteq> []) \<or> fst st \<noteq> [] \<or> snd st \<noteq> []
    \<Longrightarrow> fst (fold (wrapStep meas maxw) ws st) \<noteq> []
        \<or> snd (fold (wrapStep meas maxw) ws st) \<noteq> []"
proof (induction ws arbitrary: st)
  case Nil
  then show ?case by simp
next
  case (Cons w ws)
  have step: "fold (wrapStep meas maxw) (w # ws) st
                = fold (wrapStep meas maxw) ws (wrapStep meas maxw w st)"
    by simp
  show ?case
  proof (cases "w \<noteq> []")
    case True
    have "fst (wrapStep meas maxw w st) \<noteq> [] \<or> snd (wrapStep meas maxw w st) \<noteq> []"
      by (rule wrapStep_starts[OF True])
    then show ?thesis unfolding step by (intro Cons.IH) blast
  next
    case False
    show ?thesis
    proof (cases "fst st \<noteq> [] \<or> snd st \<noteq> []")
      case True
      have "fst (wrapStep meas maxw w st) \<noteq> [] \<or> snd (wrapStep meas maxw w st) \<noteq> []"
        by (rule wrapStep_keeps[OF True])
      then show ?thesis unfolding step by (intro Cons.IH) blast
    next
      case nost: False
      with Cons.prems False have "\<exists>w \<in> set ws. w \<noteq> []" by auto
      then show ?thesis unfolding step by (intro Cons.IH) blast
    qed
  qed
qed

lemma wrapLines_nonempty:
  assumes "list_ex (\<lambda>ch. ch \<noteq> CHR '' '') str"
  shows "wrapLines meas maxw str \<noteq> []"
proof -
  from assms obtain c where "c \<in> set str" "c \<noteq> CHR '' ''"
    by (auto simp: list_ex_iff)
  then have "\<exists>w \<in> set (splitChar CHR '' '' str). w \<noteq> []"
    by (rule splitChar_word)
  then have "fst (fold (wrapStep meas maxw) (splitChar CHR '' '' str) ([], [])) \<noteq> []
        \<or> snd (fold (wrapStep meas maxw) (splitChar CHR '' '' str) ([], [])) \<noteq> []"
    using wrap_fold[of "splitChar CHR '' '' str" "([], [])" meas maxw] by blast
  then show ?thesis by (auto simp: wrapLines_def Let_def)
qed

lemma paints_map_FillText:
  "0 < n \<Longrightarrow> list_ex paints (map (\<lambda>i. FillText (f i) (g i) (h i)) [0 ..< n])"
  by (cases n) (simp_all add: list_ex_iff paints_def upt_conv_Cons del: upt_Suc)

text \<open>Where the export has something to draw for an element, its type-specific drawing
  holds an operation that paints.\<close>

lemma drawByType_paints:
  assumes "exportHasContent ex el"
  shows "list_ex paints (drawByType ex el now)"
proof (cases "specific el")
  case (Text c fs ff fw co ta)
  with assms have "wrapLines (ex_measure ex (Font fw fs ff)) (width el) c \<noteq> []"
    by (simp add: exportHasContent_def wrapLines_nonempty)
  then show ?thesis
    using Text by (simp add: drawByType_def Let_def paints_map_FillText)
next
  case (Shape fi st sw)
  then show ?thesis by (simp add: drawByType_def Let_def paints_def)
next
  case (Circle fi st sw)
  then show ?thesis by (simp add: drawByType_def Let_def paints_def)
next
  case (Image m s obf)
  with assms show ?thesis by (simp add: drawByType_def Let_def paints_def exportHasContent_def)
next
  case (Video m s ti to pr vo mu obf)
  with assms show ?thesis
    by (auto simp: drawByType_def Let_def paints_def exportHasContent_def)
next
  case (Audio m s ti to vo fi fo pa)
  with assms show ?thesis by (simp add: exportHasContent_def)
next
  case (Subtitle cs fs ff co bg po)
  with assms show ?thesis by (simp add: exportHasContent_def)
qed

text \<open>
  C2 (as stated): preview and export are the same function and give the same output for
  the same elements and time. They are two functions, \<open>renderElement\<close> and
  \<open>renderFrameWithAssets\<close>, and they differ: for a visible text that fades in linearly over
  its first second, at 0.5 s the preview draws it with opacity 0.5 and the export with the
  element's own opacity 1; and for a text on 2 s .. 6 s at 1.9 s, the paused preview draws
  it and the export draws nothing.
\<close>

theorem C2_preview_export_differ_counterexample:
  "map_option n_opacity (renderElement samplePlaying sampleFade 0) = Some (1 / 2)
   \<and> map_option alpha (exportPlacement (drawElement sampleExport (1 / 2) sampleFade)) = Some 1
   \<and> renderElement samplePaused sampleLate 0 \<noteq> None
   \<and> drawElement sampleExport (19 / 10) sampleLate = []"
  by (simp add: renderElement_def animStyleOf_def getAnimTransform_def applyEasing_def
      clamp_def noStyle_def nodeBody_def samplePlaying_def samplePaused_def sampleFade_def
      sampleLate_def sampleText_def sampleExport_def drawElement_def elementTransform_def
      exportPlacement_def Let_def)

text \<open>
  C2 (amended): the preview (\<open>renderElement\<close>) and the export (\<open>renderFrameWithAssets\<close>) are
  two separate functions. For an element that is visible, has no entry and no exit
  animation, and is a shape, a circle, a text with a character other than a space, or an
  image or video whose asset is loaded in the export, at a time inside its window
  \<open>[startTime, startTime + duration)\<close> both draw it: the preview returns a node for it, the
  export paints between \<open>save\<close> and \<open>restore\<close>, and both do so about the same centre
  \<open>(x + width / 2, y + height / 2)\<close>, with the same rotation and the same opacity, the
  element's own.
\<close>

theorem C2_same_placement_without_animation:
  assumes "visible el" and "exportHasContent ex el"
    and "animation el = AnimNone" and "animationExit el = AnimNone"
    and "startTime el \<le> pv_currentTime pv" and "pv_currentTime pv < startTime el + duration el"
  shows "\<exists>node body.
           renderElement pv el idx = Some node
           \<and> previewPlacement node =
               Some \<lparr> centre_x = pos_x el + width el / 2, centre_y = pos_y el + height el / 2,
                      angle_deg = rotation el, alpha = opacity el \<rparr>
           \<and> exportPlacement (drawElement ex (pv_currentTime pv) el) = previewPlacement node
           \<and> drawElement ex (pv_currentTime pv) el =
               [Save, Translate (pos_x el + width el / 2) (pos_y el + height el / 2),
                Rotate (rotation el * pi / 180), Set (GlobalAlpha (opacity el))]
               @ body @ [Restore]
           \<and> list_ex paints body"
proof -
  let ?body = "(if blendMode el \<noteq> Normal then [Set (GlobalCompositeOperation (blendMode el))]
                else []) @ drawByType ex el (pv_currentTime pv)"
  obtain b where b: "nodeBody el = Some b"
    using nodeBody_drawsBoth[OF exportHasContent_drawsBoth[OF assms(2)]] by blast
  have d: "drawElement ex (pv_currentTime pv) el =
               [Save, Translate (pos_x el + width el / 2) (pos_y el + height el / 2),
                Rotate (rotation el * pi / 180), Set (GlobalAlpha (opacity el))]
               @ ?body @ [Restore]"
    using assms(1,5,6) by (simp add: drawElement_def elementTransform_def)
  have e: "exportPlacement (drawElement ex (pv_currentTime pv) el) =
             Some \<lparr> centre_x = pos_x el + width el / 2, centre_y = pos_y el + height el / 2,
                    angle_deg = rotation el, alpha = opacity el \<rparr>"
    unfolding d by (simp add: exportPlacement_def)
  have p: "list_ex paints ?body"
    using drawByType_paints[OF assms(2)] by simp
  have "\<exists>node. renderElement pv el idx = Some node
          \<and> n_left node = pos_x el \<and> n_top node = pos_y el
          \<and> n_width node = width el \<and> n_height node = height el
          \<and> n_transform node = CssRotate (rotation el) \<and> n_opacity node = opacity el"
    using assms(1,3,4,5,6) b
    by (simp add: renderElement_def animStyleOf_none noStyle_def)
  then obtain node where r: "renderElement pv el idx = Some node"
    and f: "n_left node = pos_x el" "n_top node = pos_y el"
      "n_width node = width el" "n_height node = height el"
      "n_transform node = CssRotate (rotation el)" "n_opacity node = opacity el"
    by blast
  have pp: "previewPlacement node =
             Some \<lparr> centre_x = pos_x el + width el / 2, centre_y = pos_y el + height el / 2,
                    angle_deg = rotation el, alpha = opacity el \<rparr>"
    by (simp add: previewPlacement_def f)
  have ee: "exportPlacement (drawElement ex (pv_currentTime pv) el) = previewPlacement node"
    unfolding pp by (rule e)
  from r pp ee d p show ?thesis by blast
qed

theorem C2_same_placement_without_animation_witness:
  "visible sampleText \<and> exportHasContent sampleExport sampleText
   \<and> animation sampleText = AnimNone \<and> animationExit sampleText = AnimNone
   \<and> startTime sampleText \<le> pv_currentTime samplePlaying
   \<and> pv_currentTime samplePlaying < startTime sampleText + duration sampleText
   \<and> (\<exists>node body. renderElement samplePlaying sampleText 0 = Some node
         \<and> previewPlacement node =
               Some \<lparr> centre_x = pos_x sampleText + width sampleText / 2,
                      centre_y = pos_y sampleText + height sampleText / 2,
                      angle_deg = rotation sampleText, alpha = opacity sampleText \<rparr>
         \<and> exportPlacement (drawElement sampleExport (pv_currentTime samplePlaying) sampleText)
             = previewPlacement node
         \<and> drawElement sampleExport (pv_currentTime samplePlaying) sampleText =
               [Save, Translate (pos_x sampleText + width sampleText / 2)
                        (pos_y sampleText + height sampleText / 2),
                Rotate (rotation sampleText * pi / 180), Set (GlobalAlpha (opacity sampleText))]
               @ body @ [Restore]
         \<and> list_ex paints body)"
proof -
  have h1: "visible sampleText" by (simp add: sampleText_def)
  have h2: "exportHasContent sampleExport sampleText"
    by (simp add: exportHasContent_def sampleText_def)
  have h3: "animation sampleText = AnimNone" by (simp add: sampleText_def)
  have h4: "animationExit sampleText = AnimNone" by (simp add: sampleText_def)
  have h5: "startTime sampleText \<le> pv_currentTime samplePlaying"
    by (simp add: sampleText_def samplePlaying_def)
  have h6: "pv_currentTime samplePlaying < startTime sampleText + duration sampleText"
    by (simp add: sampleText_def samplePlaying_def)
  show ?thesis
    by (intro conjI h1 h2 h3 h4 h5 h6
        C2_same_placement_without_animation[OF h1 h2 h3 h4 h5 h6])
qed








section \<open>Properties of the export orchestrator\<close>

lemma seekVideo_close: "\<bar>seekVideo vt time - time\<bar> < 2 / 100"
  by (simp add: seekVideo_def)

lemma seekVideo_exact: "2 / 100 \<le> \<bar>vt - time\<bar> \<Longrightarrow> seekVideo vt time = time"
  by (simp add: seekVideo_def)

lemma seekElement_other: "ident el \<noteq> i \<Longrightarrow> seekElement now el videos i = videos i"
  by (simp add: seekElement_def split: option.split)

lemma seekElement_loaded: "(seekElement now el videos i = None) = (videos i = None)"
  by (simp add: seekElement_def split: option.split)

lemma seekElement_local:
  "v (ident el) = w (ident el)
    \<Longrightarrow> seekElement now el v (ident el) = seekElement now el w (ident el)"
  by (simp add: seekElement_def split: option.split)

lemma seekVideos_other: "i \<notin> ident ` set els \<Longrightarrow> seekVideos els now videos i = videos i"
  unfolding seekVideos_def
  by (induction els arbitrary: videos) (auto simp: seekElement_other)

lemma seekVideos_loaded: "(seekVideos els now videos i = None) = (videos i = None)"
  unfolding seekVideos_def
  by (induction els arbitrary: videos) (simp_all add: seekElement_loaded)

lemma seekVideos_distinct:
  "distinct (map ident els) \<Longrightarrow> el \<in> set els
    \<Longrightarrow> seekVideos els now videos (ident el) = seekElement now el videos (ident el)"
proof (induction els arbitrary: videos)
  case Nil
  then show ?case by simp
next
  case (Cons x xs)
  have unf: "seekVideos (x # xs) now videos = seekVideos xs now (seekElement now x videos)"
    by (simp add: seekVideos_def)
  show ?case
  proof (cases "el \<in> set xs")
    case True
    with Cons.prems have ne: "ident x \<noteq> ident el" by auto
    have "seekVideos xs now (seekElement now x videos) (ident el)
            = seekElement now el (seekElement now x videos) (ident el)"
      using Cons.IH[of "seekElement now x videos"] Cons.prems True by simp
    also have "\<dots> = seekElement now el videos (ident el)"
      by (rule seekElement_local) (simp add: seekElement_other ne)
    finally show ?thesis by (simp add: unf)
  next
    case False
    with Cons.prems have eq: "el = x" and notin: "ident x \<notin> ident ` set xs" by auto
    show ?thesis
      by (simp add: unf eq seekVideos_other[OF notin])
  qed
qed

text \<open>A visible video element active at \<open>now\<close> whose video is loaded ends the seek loop
  at \<open>seekVideo\<close> of its previous time and its source time.\<close>

lemma seekVideos_video:
  assumes "distinct (map ident els)" and "el \<in> set els"
    and "etype el = TVideo" and "visible el" and "isInTime el now"
    and "videos (ident el) = Some vt"
  shows "seekVideos els now videos (ident el) = Some (seekVideo vt (sourceTime el now))"
  using assms by (simp add: seekVideos_distinct seekElement_def)

lemma renderFrames_not_aborted:
  "\<forall>k < length fs. \<not> aborted (reads + k) \<Longrightarrow>
   renderFrames ex aborted els fps fs (videos, frameData, reads) =
     Inr (fold (\<lambda>frame v. seekVideos els (real frame / fps) v) fs videos,
          frameData @ framesFrom ex els fps videos fs,
          reads + length fs)"
proof (induction fs arbitrary: videos frameData reads)
  case Nil
  then show ?case by simp
next
  case (Cons f fs)
  from Cons.prems have now: "\<not> aborted reads" by fastforce
  from Cons.prems have later: "\<forall>k < length fs. \<not> aborted (Suc reads + k)" by fastforce
  show ?case
    using now Cons.IH[OF later] by (simp add: Let_def)
qed

lemma length_framesFrom: "length (framesFrom ex els fps videos fs) = length fs"
  by (induction fs arbitrary: videos) simp_all

lemma framesFrom_nth:
  "i < length fs \<Longrightarrow>
   framesFrom ex els fps videos fs ! i =
     renderFrameWithAssets
       (ex\<lparr> ex_videos :=
             seekVideos els (real (fs ! i) / fps)
               (fold (\<lambda>f v. seekVideos els (real f / fps) v) (take i fs) videos) \<rparr>)
       els (real (fs ! i) / fps)"
proof (induction fs arbitrary: videos i)
  case Nil
  then show ?case by simp
next
  case (Cons f fs)
  show ?case
  proof (cases i)
    case 0
    then show ?thesis by simp
  next
    case (Suc j)
    with Cons.prems have j: "j < length fs" by simp
    show ?thesis
      using Cons.IH[OF j, of "seekVideos els (real f / fps) videos"] Suc by simp
  qed
qed

lemma fold_seek_loaded:
  "(fold (\<lambda>f v. seekVideos els (real f / fps) v) fs videos k = None) = (videos k = None)"
  by (induction fs arbitrary: videos) (simp_all add: seekVideos_loaded)

lemma videosBefore_loaded:
  "(videosBefore els fps loaded frame k = None) = (loaded k = None)"
  unfolding videosBefore_def by (rule fold_seek_loaded)

lemma framesFrom_upt_nth:
  assumes "f < T"
  shows "framesFrom ex els fps loaded [0 ..< T] ! f =
           renderFrameWithAssets
             (ex\<lparr> ex_videos := seekVideos els (real f / fps) (videosBefore els fps loaded f) \<rparr>)
             els (real f / fps)"
proof -
  from assms have l: "f < length [0 ..< T]" by simp
  from assms have t: "take f [0 ..< T] = [0 ..< f]" by (simp add: take_upt)
  from assms have n: "[0 ..< T] ! f = f" by simp
  show ?thesis
    using framesFrom_nth[OF l, of ex els fps loaded] unfolding t n videosBefore_def .
qed

lemma upt2: "[0 ..< 2] = [0, Suc 0]"
  by (simp add: upt_rec)

lemma frameName_0: "frameName 0 = ''frame_000000.rgba''"
  by (simp add: frameName_def padStart_def showNat.simps eval_nat_numeral)

lemma frameName_1: "frameName (Suc 0) = ''frame_000001.rgba''"
  by (simp add: frameName_def padStart_def showNat.simps eval_nat_numeral)

text \<open>
  C7 (as stated): before a frame is drawn, every visible video element active at the
  frame's time is seeked to the source time \<open>trimIn + (time - startTime) \<times> playbackRate\<close>.
  \<open>seekVideo\<close> leaves a video alone that is within 0.02 s of the target: at 60 frames per
  second the sample video (source time 0 after loading, rate 1, from 0 s) is drawn in
  frame 1 at source time 0, while the frame's time 1/60 asks for source time 1/60.
\<close>

theorem C7_seek_tolerance_counterexample:
  "capturedFrames (captureFrames sampleLoaded neverAborted sampleSettings [sampleVideo] (1 / 30))
     ! 1
     = [ClearRect 0 0 1920 1080, Set (FillStyle ''#111827''), FillRect 0 0 1920 1080,
        Save, Translate 960 540, Rotate 0, Set (GlobalAlpha 1),
        DrawVideo ''v1'' 0 (- 960) (- 540) 1920 1080, Restore]
   \<and> visible sampleVideo \<and> etype sampleVideo = TVideo \<and> isInTime sampleVideo (1 / 60)
   \<and> sourceTime sampleVideo (1 / 60) = 1 / 60"
proof -
  have t: "nat \<lceil>(1 / 30 :: real) * es_fps sampleSettings\<rceil> = 2"
    by (simp add: sampleSettings_def)
  have f: "es_fps sampleSettings = 60" by (simp add: sampleSettings_def)
  show ?thesis
    unfolding captureFrames_def Let_def t f
    by (simp add: upt2 capturedFrames_def neverAborted_def sampleLoaded_def sampleExport_def
        sampleVideo_def seekVideos_def seekElement_def seekVideo_def isInTime_def
        sourceTime_def renderFrameWithAssets_def drawElement_def elementTransform_def
        drawByType_def Let_def)
qed

text \<open>
  C7 (amended): an export of a composition of \<open>N \<ge> 0\<close> seconds at \<open>fps > 0\<close> frames per
  second that is not cancelled, of elements with pairwise distinct ids, iterates over the
  frame indices \<open>0 \<le> f < ceil(N \<times> fps)\<close> and captures exactly \<open>ceil(N \<times> fps)\<close> frames. Frame \<open>f\<close>
  is rendered at time \<open>f / fps\<close>, after the seek loop of that iteration. In it every
  visible video element active at that time whose video is loaded has its video, which
  the iterations before left at some time \<open>prev\<close>, either left at \<open>prev\<close>, when \<open>prev\<close> is less
  than 0.02 s away from the source time \<open>trimIn + (time - startTime) \<times> r\<close>, or else set to
  exactly that source time; \<open>r\<close> is \<open>playbackRate\<close>, or 1 when \<open>playbackRate\<close> is 0.
\<close>

theorem C7_export_frame_loop:
  assumes "0 \<le> N" and "0 < es_fps settings"
    and "\<forall>k < nat \<lceil>N * es_fps settings\<rceil>. \<not> aborted k"
    and "distinct (map ident els)"
  shows "\<exists>videos frameData.
           captureFrames ex aborted settings els N
             = Inr (videos, frameData, nat \<lceil>N * es_fps settings\<rceil>)
           \<and> int (length frameData) = \<lceil>N * es_fps settings\<rceil>
           \<and> (\<forall>f < length frameData.
                frameData ! f =
                  renderFrameWithAssets
                    (ex\<lparr> ex_videos :=
                          seekVideos els (real f / es_fps settings)
                            (videosBefore els (es_fps settings) (ex_videos ex) f) \<rparr>)
                    els (real f / es_fps settings)
                \<and> (\<forall>el \<in> set els.
                      etype el = TVideo \<and> visible el
                      \<and> isInTime el (real f / es_fps settings)
                      \<and> ex_videos ex (ident el) \<noteq> None
                      \<longrightarrow> (\<exists>prev.
                             videosBefore els (es_fps settings) (ex_videos ex) f (ident el)
                               = Some prev
                             \<and> seekVideos els (real f / es_fps settings)
                                 (videosBefore els (es_fps settings) (ex_videos ex) f) (ident el)
                               = Some (if \<bar>prev - sourceTime el (real f / es_fps settings)\<bar>
                                          < 2 / 100
                                       then prev
                                       else sourceTime el (real f / es_fps settings)))))"
proof -
  let ?fps = "es_fps settings"
  let ?T = "nat \<lceil>N * ?fps\<rceil>"
  let ?fd = "framesFrom ex els ?fps (ex_videos ex) [0 ..< ?T]"
  have run: "captureFrames ex aborted settings els N =
        Inr (fold (\<lambda>frame v. seekVideos els (real frame / ?fps) v) [0 ..< ?T] (ex_videos ex),
             ?fd, ?T)"
    using renderFrames_not_aborted[of "[0 ..< ?T]" aborted 0 ex els ?fps "ex_videos ex" "[]"]
      assms(3) by (simp add: captureFrames_def)
  have lfd: "length ?fd = ?T" by (simp add: length_framesFrom)
  have "0 \<le> N * ?fps" using assms(1,2) by simp
  then have len: "int (length ?fd) = \<lceil>N * ?fps\<rceil>"
    by (simp add: lfd)
  have each: "?fd ! f =
          renderFrameWithAssets
            (ex\<lparr> ex_videos := seekVideos els (real f / ?fps)
                                  (videosBefore els ?fps (ex_videos ex) f) \<rparr>)
            els (real f / ?fps)
        \<and> (\<forall>el \<in> set els.
              etype el = TVideo \<and> visible el \<and> isInTime el (real f / ?fps)
              \<and> ex_videos ex (ident el) \<noteq> None
              \<longrightarrow> (\<exists>prev. videosBefore els ?fps (ex_videos ex) f (ident el) = Some prev
                     \<and> seekVideos els (real f / ?fps)
                         (videosBefore els ?fps (ex_videos ex) f) (ident el)
                       = Some (if \<bar>prev - sourceTime el (real f / ?fps)\<bar> < 2 / 100
                               then prev else sourceTime el (real f / ?fps))))"
    if f: "f < length ?fd" for f
  proof (intro conjI ballI impI)
    from f lfd have "f < ?T" by simp
    then show "?fd ! f =
          renderFrameWithAssets
            (ex\<lparr> ex_videos := seekVideos els (real f / ?fps)
                                  (videosBefore els ?fps (ex_videos ex) f) \<rparr>)
            els (real f / ?fps)"
      by (rule framesFrom_upt_nth)
  next
    fix el
    assume el: "el \<in> set els"
      and v: "etype el = TVideo \<and> visible el \<and> isInTime el (real f / ?fps)
              \<and> ex_videos ex (ident el) \<noteq> None"
    from v have "videosBefore els ?fps (ex_videos ex) f (ident el) \<noteq> None"
      by (simp add: videosBefore_loaded)
    then obtain prev where p: "videosBefore els ?fps (ex_videos ex) f (ident el) = Some prev"
      by blast
    from v have v1: "etype el = TVideo" and v2: "visible el"
      and v3: "isInTime el (real f / ?fps)" by simp_all
    have "seekVideos els (real f / ?fps) (videosBefore els ?fps (ex_videos ex) f) (ident el)
            = Some (seekVideo prev (sourceTime el (real f / ?fps)))"
      using seekVideos_video[of els el "real f / ?fps"
              "videosBefore els ?fps (ex_videos ex) f" prev, OF assms(4) el v1 v2 v3 p] .
    then show "\<exists>prev. videosBefore els ?fps (ex_videos ex) f (ident el) = Some prev
                     \<and> seekVideos els (real f / ?fps)
                         (videosBefore els ?fps (ex_videos ex) f) (ident el)
                       = Some (if \<bar>prev - sourceTime el (real f / ?fps)\<bar> < 2 / 100
                               then prev else sourceTime el (real f / ?fps))"
      using p by (intro exI[of _ prev]) (simp add: seekVideo_def)
  qed
  show ?thesis
    using run len each by blast
qed

theorem C7_export_frame_loop_witness:
  "(0 :: real) \<le> 1 / 30 \<and> 0 < es_fps sampleSettings
   \<and> distinct (map ident [sampleVideo])
   \<and> length (capturedFrames
        (captureFrames sampleLoaded neverAborted sampleSettings [sampleVideo] (1 / 30))) = 2"
proof -
  have h1: "(0 :: real) \<le> 1 / 30" by simp
  have h2: "0 < es_fps sampleSettings" by (simp add: sampleSettings_def)
  have h3: "\<forall>k < nat \<lceil>(1 / 30 :: real) * es_fps sampleSettings\<rceil>. \<not> neverAborted k"
    by (simp add: neverAborted_def)
  have h4: "distinct (map ident [sampleVideo])" by simp
  have t: "\<lceil>(1 / 30 :: real) * es_fps sampleSettings\<rceil> = 2"
    by (simp add: sampleSettings_def)
  from C7_export_frame_loop[OF h1 h2 h3 h4, of sampleLoaded]
  obtain videos frameData where
    r: "captureFrames sampleLoaded neverAborted sampleSettings [sampleVideo] (1 / 30)
        = Inr (videos, frameData, nat \<lceil>(1 / 30 :: real) * es_fps sampleSettings\<rceil>)"
    and l: "int (length frameData) = \<lceil>(1 / 30 :: real) * es_fps sampleSettings\<rceil>"
    by blast
  from l have "length frameData = 2" unfolding t by simp
  then have "length (capturedFrames
        (captureFrames sampleLoaded neverAborted sampleSettings [sampleVideo] (1 / 30))) = 2"
    unfolding r capturedFrames_def by simp
  then show ?thesis using h1 h2 h4 by blast
qed

text \<open>
  C8: an export that ends by cancellation or by encoder failure leaves no intermediate
  frame file behind. The cleanup loop of \<open>exportProject\<close> stands after the encoder call, on
  the path of a successful export only. For a 1 s text composition at 2 frames per second
  and an empty file system: cancelled before the second frame file is written, the run
  throws and \<open>frame_000000.rgba\<close> stays; with a failing encoder the run throws and both
  frame files stay; only the successful run removes them.
\<close>

theorem C8_failed_export_leaves_frame_files:
  "fst (exportProject sampleExport encodeOk abortedAtFourthRead
          (sampleSettings\<lparr> es_fps := 2 \<rparr>) [sampleText] 1 emptyFs) = Inl ExportCancelled
   \<and> snd (exportProject sampleExport encodeOk abortedAtFourthRead
          (sampleSettings\<lparr> es_fps := 2 \<rparr>) [sampleText] 1 emptyFs) ''frame_000000.rgba'' \<noteq> None
   \<and> fst (exportProject sampleExport encodeFails neverAborted
          (sampleSettings\<lparr> es_fps := 2 \<rparr>) [sampleText] 1 emptyFs) = Inl EncodingFailed
   \<and> snd (exportProject sampleExport encodeFails neverAborted
          (sampleSettings\<lparr> es_fps := 2 \<rparr>) [sampleText] 1 emptyFs) ''frame_000000.rgba'' \<noteq> None
   \<and> snd (exportProject sampleExport encodeFails neverAborted
          (sampleSettings\<lparr> es_fps := 2 \<rparr>) [sampleText] 1 emptyFs) ''frame_000001.rgba'' \<noteq> None
   \<and> exportProject sampleExport encodeOk neverAborted
          (sampleSettings\<lparr> es_fps := 2 \<rparr>) [sampleText] 1 emptyFs = (Inr 7, emptyFs)"
proof -
  have a: "exportProject sampleExport encodeOk abortedAtFourthRead
             (sampleSettings\<lparr> es_fps := 2 \<rparr>) [sampleText] 1 emptyFs
           = (Inl ExportCancelled,
              emptyFs(''frame_000000.rgba'' \<mapsto>
                FrameFile (renderFrameWithAssets
                  (sampleExport\<lparr> ex_videos := seekVideos [sampleText] 0 (ex_videos sampleExport) \<rparr>)
                  [sampleText] 0)))"
    by (simp add: exportProject_def captureFrames_def sampleSettings_def upt2 abortedAtFourthRead_def Let_def
        frameName_0 frameName_1)
  have b: "exportProject sampleExport encodeFails neverAborted
             (sampleSettings\<lparr> es_fps := 2 \<rparr>) [sampleText] 1 emptyFs
           = (Inl EncodingFailed,
              emptyFs(''frame_000000.rgba'' \<mapsto>
                  FrameFile (renderFrameWithAssets
                    (sampleExport\<lparr> ex_videos := seekVideos [sampleText] 0 (ex_videos sampleExport) \<rparr>)
                    [sampleText] 0),
                ''frame_000001.rgba'' \<mapsto>
                  FrameFile (renderFrameWithAssets
                    (sampleExport\<lparr> ex_videos :=
                       seekVideos [sampleText] (1 / 2)
                         (seekVideos [sampleText] 0 (ex_videos sampleExport)) \<rparr>)
                    [sampleText] (1 / 2))))"
    by (simp add: exportProject_def captureFrames_def sampleSettings_def upt2 neverAborted_def encodeFails_def
        Let_def frameName_0 frameName_1)
  have c: "exportProject sampleExport encodeOk neverAborted
          (sampleSettings\<lparr> es_fps := 2 \<rparr>) [sampleText] 1 emptyFs = (Inr 7, emptyFs)"
    by (simp add: exportProject_def captureFrames_def sampleSettings_def upt2 neverAborted_def encodeOk_def
        Let_def frameName_0 frameName_1 deleteFrames_def outputName_def emptyFs_def fun_eq_iff)
  show ?thesis
    unfolding a b c by simp
qed

section \<open>Properties of the subtitle parsers\<close>

lemma set_stripTags: "set (stripTags s) \<subseteq> set s"
proof (induction s rule: stripTags.induct)
  case 1
  then show ?case by simp
next
  case (2 c cs)
  show ?case
  proof (cases "c = CHR ''<'' \<and> tagAhead cs")
    case True
    have "set (drop (Suc (length (tagRun cs))) cs) \<subseteq> set cs"
      by (rule set_drop_subset)
    with 2(1)[OF True] True show ?thesis by auto
  next
    case False
    with 2(2)[OF False] show ?thesis by auto
  qed
qed

lemma tagRun_short: "length (tagRun cs) < length cs \<longleftrightarrow> CHR ''>'' \<in> set cs"
  unfolding tagRun_def by (induction cs) auto

lemma tagRun_nonempty: "tagRun cs \<noteq> [] \<longleftrightarrow> cs \<noteq> [] \<and> hd cs \<noteq> CHR ''>''"
  unfolding tagRun_def by (cases cs) auto

lemma tagAhead_iff:
  "tagAhead cs \<longleftrightarrow> cs \<noteq> [] \<and> hd cs \<noteq> CHR ''>'' \<and> CHR ''>'' \<in> set cs"
  unfolding tagAhead_def tagRun_short tagRun_nonempty by blast

lemma stripTags_no_tag: "\<not> hasTag (stripTags s)"
proof (induction s rule: stripTags.induct)
  case 1
  then show ?case by simp
next
  case (2 c cs)
  show ?case
  proof (cases "c = CHR ''<'' \<and> tagAhead cs")
    case True
    with 2(1)[OF True] show ?thesis by simp
  next
    case False
    have ih: "\<not> hasTag (stripTags cs)" by (rule 2(2)[OF False])
    have "\<not> (c = CHR ''<'' \<and> tagAhead (stripTags cs))"
    proof
      assume h: "c = CHR ''<'' \<and> tagAhead (stripTags cs)"
      then have ne: "stripTags cs \<noteq> []" and hd: "hd (stripTags cs) \<noteq> CHR ''>''"
        and mem: "CHR ''>'' \<in> set (stripTags cs)"
        by (simp_all add: tagAhead_iff)
      from mem set_stripTags have mem': "CHR ''>'' \<in> set cs" by blast
      from h False have "\<not> tagAhead cs" by simp
      with mem' have "hd cs = CHR ''>''" by (auto simp: tagAhead_iff)
      with mem' obtain r where "cs = CHR ''>'' # r" by (cases cs) auto
      then have "hd (stripTags cs) = CHR ''>''" by simp
      with hd show False by simp
    qed
    with ih False show ?thesis by auto
  qed
qed

lemma vttMatch_sample:
  "vttMatch ''00:00:01.000 --> 00:00:02.500'' = Some (1, 5 / 2)"
  by code_simp

lemma srtMatch_sample:
  "srtMatch ''00:00:01,000 --> 00:00:02,500'' = Some (1, 5 / 2)"
  by code_simp

text \<open>
  C10 (as stated): in both formats the leading index or id line of a cue block is
  optional. \<open>parseSRT\<close> reads the timestamps from the second line of a block and skips
  blocks of fewer than three lines: the cue \<open>00:00:01,000 --> 00:00:02,500 / <i>Hello</i>\<close>
  is parsed when the index line \<open>1\<close> precedes it and dropped when it does not.
\<close>

theorem C10_srt_index_required_counterexample:
  "fst (parseSRT sampleGen srtWithoutIndex 0) = []
   \<and> fst (parseSRT sampleGen srtWithIndex 0) =
       [\<lparr> cue_id = ''n'', cue_startTime = 1, cue_endTime = 5 / 2, cue_text = ''Hello'' \<rparr>]"
  by code_simp

text \<open>
  C10 (amended): in the dot-millisecond VTT format the id line before the timestamp line
  of a cue block is optional: a block parses to the same cue with or without a leading
  line that does not contain \<open>-->\<close>, the cue text being the lines after the timestamp line.
  In the SRT format (comma or dot before the milliseconds) the leading line is required:
  a block gives a cue exactly when it has at least three lines and its second line holds
  the timestamps, the cue text being the lines from the third on. In both formats the
  text is stripped of inline markup: no tag \<open><...>\<close> is left in it.
\<close>

theorem C10_cue_block_parsing:
  "(\<not> includesStr ''-->'' idLine \<and> includesStr ''-->'' timeLine \<longrightarrow>
      vttCue (idLine # timeLine # textLines) = vttCue (timeLine # textLines))
   \<and> (includesStr ''-->'' timeLine \<and> vttMatch timeLine = Some (a, b) \<longrightarrow>
        vttCue (timeLine # textLines) = Some (a, b, stripTags (joinLines textLines)))
   \<and> (srtMatch timeLine = Some (a, b) \<longrightarrow>
        srtCue (idLine # timeLine # textLine # textLines)
          = Some (a, b, stripTags (joinLines (textLine # textLines))))
   \<and> (length lines < 3 \<or> srtMatch (lines ! 1) = None \<longrightarrow> srtCue lines = None)
   \<and> (srtCue lines \<noteq> None \<longrightarrow> 3 \<le> length lines \<and> srtMatch (lines ! 1) \<noteq> None)
   \<and> \<not> hasTag (stripTags s)"
proof (intro conjI impI)
  assume "\<not> includesStr ''-->'' idLine \<and> includesStr ''-->'' timeLine"
  then show "vttCue (idLine # timeLine # textLines) = vttCue (timeLine # textLines)"
    by (simp add: vttCue_def)
next
  assume "includesStr ''-->'' timeLine \<and> vttMatch timeLine = Some (a, b)"
  then show "vttCue (timeLine # textLines) = Some (a, b, stripTags (joinLines textLines))"
    by (simp add: vttCue_def)
next
  assume "srtMatch timeLine = Some (a, b)"
  then show "srtCue (idLine # timeLine # textLine # textLines)
          = Some (a, b, stripTags (joinLines (textLine # textLines)))"
    by (simp add: srtCue_def)
next
  assume "length lines < 3 \<or> srtMatch (lines ! 1) = None"
  then show "srtCue lines = None"
    by (auto simp: srtCue_def)
next
  assume "srtCue lines \<noteq> None"
  then show "3 \<le> length lines" by (auto simp: srtCue_def split: if_splits)
next
  assume "srtCue lines \<noteq> None"
  then show "srtMatch (lines ! 1) \<noteq> None"
    by (auto simp: srtCue_def split: if_splits option.splits)
next
  show "\<not> hasTag (stripTags s)" by (rule stripTags_no_tag)
qed

theorem C10_cue_block_parsing_witness:
  "vttCue [''intro'', ''00:00:01.000 --> 00:00:02.500'', ''<b>Hello</b>'']
     = Some (1, 5 / 2, ''Hello'')
   \<and> vttCue [''00:00:01.000 --> 00:00:02.500'', ''<b>Hello</b>''] = Some (1, 5 / 2, ''Hello'')
   \<and> srtCue [''1'', ''00:00:01,000 --> 00:00:02,500'', ''<i>Hello</i>'']
       = Some (1, 5 / 2, ''Hello'')
   \<and> srtCue [''00:00:01,000 --> 00:00:02,500'', ''<i>Hello</i>''] = None
   \<and> fst (parseVTT sampleGen vttSample 0) =
       [\<lparr> cue_id = ''n'', cue_startTime = 1, cue_endTime = 5 / 2, cue_text = ''Hello'' \<rparr>,
        \<lparr> cue_id = ''nn'', cue_startTime = 3, cue_endTime = 4, cue_text = ''World'' \<rparr>]"
proof -
  note v = C10_cue_block_parsing
    [of "''intro''" "''00:00:01.000 --> 00:00:02.500''" "[''<b>Hello</b>'']" 1 "5 / 2"
        "''<i>Hello</i>''" "[''00:00:01,000 --> 00:00:02,500'', ''<i>Hello</i>'']" "[]"]
  note s = C10_cue_block_parsing
    [of "''1''" "''00:00:01,000 --> 00:00:02,500''" "[]" 1 "5 / 2"
        "''<i>Hello</i>''" "[''00:00:01,000 --> 00:00:02,500'', ''<i>Hello</i>'']" "[]"]
  have i1: "\<not> includesStr ''-->'' ''intro''" by code_simp
  have i2: "includesStr ''-->'' ''00:00:01.000 --> 00:00:02.500''" by code_simp
  have st1: "stripTags (joinLines [''<b>Hello</b>'']) = ''Hello''" by code_simp
  have st2: "stripTags (joinLines [''<i>Hello</i>'']) = ''Hello''" by code_simp
  have len: "length [''00:00:01,000 --> 00:00:02,500'', ''<i>Hello</i>''] < 3" by simp
  have b: "vttCue [''00:00:01.000 --> 00:00:02.500'', ''<b>Hello</b>''] = Some (1, 5 / 2, ''Hello'')"
    using conjunct1[OF conjunct2[OF v]] i2 vttMatch_sample unfolding st1 by blast
  have a: "vttCue [''intro'', ''00:00:01.000 --> 00:00:02.500'', ''<b>Hello</b>'']
     = Some (1, 5 / 2, ''Hello'')"
    using conjunct1[OF v] i1 i2 unfolding b by blast
  have c: "srtCue [''1'', ''00:00:01,000 --> 00:00:02,500'', ''<i>Hello</i>'']
       = Some (1, 5 / 2, ''Hello'')"
    using conjunct1[OF conjunct2[OF conjunct2[OF s]]] srtMatch_sample unfolding st2 by blast
  have d: "srtCue [''00:00:01,000 --> 00:00:02,500'', ''<i>Hello</i>''] = None"
    using conjunct1[OF conjunct2[OF conjunct2[OF conjunct2[OF v]]]] len by blast
  have e: "fst (parseVTT sampleGen vttSample 0) =
       [\<lparr> cue_id = ''n'', cue_startTime = 1, cue_endTime = 5 / 2, cue_text = ''Hello'' \<rparr>,
        \<lparr> cue_id = ''nn'', cue_startTime = 3, cue_endTime = 4, cue_text = ''World'' \<rparr>]"
    by code_simp
  show ?thesis using a b c d e by blast
qed

end
